theory Spec2Isabelle
  imports Main
begin

section \<open>Client factory: \<open>packages/openai-adapters/src/index.ts\<close>\<close>

text \<open>
  \<open>LLMConfig\<close> is declared in \<open>types.ts\<close>; the factory reads two of its fields,
  \<open>provider\<close> and \<open>apiBase\<close>. Every other field travels in the record's extension.
  An absent (\<open>undefined\<close> or \<open>null\<close>) \<open>apiBase\<close> is \<open>None\<close>.
\<close>

record LLMConfig =
  provider :: string
  apiBase :: "string option"

text \<open>
  The adapter classes are imported from \<open>./apis/*\<close>. A client is represented by the
  class that was instantiated together with the configuration object handed to its
  constructor; \<open>MockApi\<close> is constructed without arguments.
\<close>

datatype 'a BaseLlmApi =
    OpenAIApi "'a LLMConfig_scheme"
  | AzureApi "'a LLMConfig_scheme"
  | BedrockApi "'a LLMConfig_scheme"
  | CohereApi "'a LLMConfig_scheme"
  | AnthropicApi "'a LLMConfig_scheme"
  | GeminiApi "'a LLMConfig_scheme"
  | JinaApi "'a LLMConfig_scheme"
  | DeepSeekApi "'a LLMConfig_scheme"
  | MoonshotApi "'a LLMConfig_scheme"
  | RelaceApi "'a LLMConfig_scheme"
  | InceptionApi "'a LLMConfig_scheme"
  | WatsonXApi "'a LLMConfig_scheme"
  | VertexAIApi "'a LLMConfig_scheme"
  | LlamastackApi "'a LLMConfig_scheme"
  | ContinueProxyApi "'a LLMConfig_scheme"
  | MockApi

text \<open>
  \<open>openAICompatible(apiBase, config)\<close>: the object spread copies \<open>config\<close> and sets
  \<open>apiBase\<close> to \<open>config.apiBase ?? apiBase\<close>.
\<close>

definition openAICompatible :: "string \<Rightarrow> 'a LLMConfig_scheme \<Rightarrow> 'a BaseLlmApi" where
  "openAICompatible dflt cfg =
     OpenAIApi (cfg\<lparr>apiBase := Some (case apiBase cfg of None \<Rightarrow> dflt | Some b \<Rightarrow> b)\<rparr>)"

text \<open>
  \<open>constructLlmApi(config)\<close>: the \<open>switch\<close> on \<open>config.provider\<close>, case by case in the
  source's order; \<open>None\<close> is the \<open>undefined\<close> of the \<open>default\<close> branch.
\<close>

definition constructLlmApi :: "'a LLMConfig_scheme \<Rightarrow> 'a BaseLlmApi option" where
  "constructLlmApi cfg =
    (let p = provider cfg in
     if p = ''openai'' then Some (OpenAIApi cfg)
     else if p = ''azure'' then Some (AzureApi cfg)
     else if p = ''bedrock'' then Some (BedrockApi cfg)
     else if p = ''cohere'' then Some (CohereApi cfg)
     else if p = ''anthropic'' then Some (AnthropicApi cfg)
     else if p = ''gemini'' then Some (GeminiApi cfg)
     else if p = ''jina'' then Some (JinaApi cfg)
     else if p = ''deepseek'' then Some (DeepSeekApi cfg)
     else if p = ''moonshot'' then Some (MoonshotApi cfg)
     else if p = ''relace'' then Some (RelaceApi cfg)
     else if p = ''inception'' then Some (InceptionApi cfg)
     else if p = ''watsonx'' then Some (WatsonXApi cfg)
     else if p = ''vertexai'' then Some (VertexAIApi cfg)
     else if p = ''llamastack'' then Some (LlamastackApi cfg)
     else if p = ''continue-proxy'' then Some (ContinueProxyApi cfg)
     else if p = ''xAI'' then Some (openAICompatible ''https://api.x.ai/v1/'' cfg)
     else if p = ''voyage'' then Some (openAICompatible ''https://api.voyageai.com/v1/'' cfg)
     else if p = ''mistral'' then Some (openAICompatible ''https://api.mistral.ai/v1/'' cfg)
     else if p = ''deepinfra'' then
       Some (openAICompatible ''https://api.deepinfra.com/v1/openai/'' cfg)
     else if p = ''vllm'' then Some (openAICompatible ''http://localhost:8000/v1/'' cfg)
     else if p = ''groq'' then Some (openAICompatible ''https://api.groq.com/openai/v1/'' cfg)
     else if p = ''sambanova'' then Some (openAICompatible ''https://api.sambanova.ai/v1/'' cfg)
     else if p = ''text-gen-webui'' then
       Some (openAICompatible ''http://127.0.0.1:5000/v1/'' cfg)
     else if p = ''openrouter'' then
       Some (openAICompatible ''https://openrouter.ai/api/v1/'' cfg)
     else if p = ''cerebras'' then Some (openAICompatible ''https://api.cerebras.ai/v1/'' cfg)
     else if p = ''kindo'' then Some (openAICompatible ''https://llm.kindo.ai/v1/'' cfg)
     else if p = ''msty'' then Some (openAICompatible ''http://localhost:10000'' cfg)
     else if p = ''nvidia'' then
       Some (openAICompatible ''https://integrate.api.nvidia.com/v1/'' cfg)
     else if p = ''ovhcloud'' then
       Some (openAICompatible ''https://oai.endpoints.kepler.ai.cloud.ovh.net/v1/'' cfg)
     else if p = ''scaleway'' then Some (openAICompatible ''https://api.scaleway.ai/v1/'' cfg)
     else if p = ''fireworks'' then
       Some (openAICompatible ''https://api.fireworks.ai/inference/v1/'' cfg)
     else if p = ''together'' then Some (openAICompatible ''https://api.together.xyz/v1/'' cfg)
     else if p = ''ncompass'' then Some (openAICompatible ''https://api.ncompass.tech/v1'' cfg)
     else if p = ''novita'' then
       Some (openAICompatible ''https://api.novita.ai/v3/openai'' cfg)
     else if p = ''nebius'' then
       Some (openAICompatible ''https://api.studio.nebius.ai/v1/'' cfg)
     else if p = ''function-network'' then
       Some (openAICompatible ''https://api.function.network/v1/'' cfg)
     else if p = ''llama.cpp'' \<or> p = ''llamafile'' then
       Some (openAICompatible ''http://localhost:8000/'' cfg)
     else if p = ''lmstudio'' then Some (openAICompatible ''http://localhost:1234/'' cfg)
     else if p = ''ollama'' then Some (openAICompatible ''http://localhost:11434/v1/'' cfg)
     else if p = ''mock'' then Some MockApi
     else None)"

text \<open>
  The registry: the identifiers that label a \<open>case\<close> of the \<open>switch\<close>, first the
  providers with a dedicated class, then the OpenAI-compatible ones with the default
  \<open>apiBase\<close> written at their \<open>case\<close>, then the mock.
\<close>

definition dedicatedProviders :: "string list" where
  "dedicatedProviders =
    [''openai'', ''azure'', ''bedrock'', ''cohere'', ''anthropic'', ''gemini'', ''jina'',
     ''deepseek'', ''moonshot'', ''relace'', ''inception'', ''watsonx'', ''vertexai'',
     ''llamastack'', ''continue-proxy'']"

definition openAICompatibleDefaults :: "(string \<times> string) list" where
  "openAICompatibleDefaults =
    [(''xAI'', ''https://api.x.ai/v1/''),
     (''voyage'', ''https://api.voyageai.com/v1/''),
     (''mistral'', ''https://api.mistral.ai/v1/''),
     (''deepinfra'', ''https://api.deepinfra.com/v1/openai/''),
     (''vllm'', ''http://localhost:8000/v1/''),
     (''groq'', ''https://api.groq.com/openai/v1/''),
     (''sambanova'', ''https://api.sambanova.ai/v1/''),
     (''text-gen-webui'', ''http://127.0.0.1:5000/v1/''),
     (''openrouter'', ''https://openrouter.ai/api/v1/''),
     (''cerebras'', ''https://api.cerebras.ai/v1/''),
     (''kindo'', ''https://llm.kindo.ai/v1/''),
     (''msty'', ''http://localhost:10000''),
     (''nvidia'', ''https://integrate.api.nvidia.com/v1/''),
     (''ovhcloud'', ''https://oai.endpoints.kepler.ai.cloud.ovh.net/v1/''),
     (''scaleway'', ''https://api.scaleway.ai/v1/''),
     (''fireworks'', ''https://api.fireworks.ai/inference/v1/''),
     (''together'', ''https://api.together.xyz/v1/''),
     (''ncompass'', ''https://api.ncompass.tech/v1''),
     (''novita'', ''https://api.novita.ai/v3/openai''),
     (''nebius'', ''https://api.studio.nebius.ai/v1/''),
     (''function-network'', ''https://api.function.network/v1/''),
     (''llama.cpp'', ''http://localhost:8000/''),
     (''llamafile'', ''http://localhost:8000/''),
     (''lmstudio'', ''http://localhost:1234/''),
     (''ollama'', ''http://localhost:11434/v1/'')]"

definition registry :: "string list" where
  "registry = dedicatedProviders @ map fst openAICompatibleDefaults @ [''mock'']"

text \<open>\<open>s.endsWith("/")\<close>.\<close>

definition endsWithSlash :: "string \<Rightarrow> bool" where
  "endsWithSlash s = (s \<noteq> [] \<and> last s = CHR ''/'')"

text \<open>
  The constructor of \<open>AnthropicApi\<close> (\<open>apis/Anthropic.ts\<close>): the field \<open>apiBase\<close> is
  \<open>config.apiBase\<close>, or \<open>https://api.anthropic.com/v1/\<close> when that is absent, and a slash
  is appended when it does not end with one.
\<close>

definition anthropicApiBase :: "'a LLMConfig_scheme \<Rightarrow> string" where
  "anthropicApiBase cfg =
     (let base = (case apiBase cfg of None \<Rightarrow> ''https://api.anthropic.com/v1/'' | Some b \<Rightarrow> b)
      in if endsWithSlash base then base else base @ ''/'')"

text \<open>
  The \<open>apiBase\<close> of a client. For \<open>AnthropicApi\<close> it is the field that its constructor
  sets. The constructors of the other classes are outside the sources at hand; for
  them it is the \<open>apiBase\<close> of the configuration handed to the constructor.
\<close>

fun clientApiBase :: "'a BaseLlmApi \<Rightarrow> string option" where
  "clientApiBase (OpenAIApi c) = apiBase c"
| "clientApiBase (AzureApi c) = apiBase c"
| "clientApiBase (BedrockApi c) = apiBase c"
| "clientApiBase (CohereApi c) = apiBase c"
| "clientApiBase (AnthropicApi c) = Some (anthropicApiBase c)"
| "clientApiBase (GeminiApi c) = apiBase c"
| "clientApiBase (JinaApi c) = apiBase c"
| "clientApiBase (DeepSeekApi c) = apiBase c"
| "clientApiBase (MoonshotApi c) = apiBase c"
| "clientApiBase (RelaceApi c) = apiBase c"
| "clientApiBase (InceptionApi c) = apiBase c"
| "clientApiBase (WatsonXApi c) = apiBase c"
| "clientApiBase (VertexAIApi c) = apiBase c"
| "clientApiBase (LlamastackApi c) = apiBase c"
| "clientApiBase (ContinueProxyApi c) = apiBase c"
| "clientApiBase MockApi = None"


section \<open>Loading the configuration file: \<open>core/config/load.ts\<close>\<close>

subsection \<open>Data\<close>

text \<open>
  The fields of \<open>SerializedContinueConfig\<close> that the loader reads or writes. A field that is
  \<open>undefined\<close> is \<open>None\<close>; \<open>env\<close> is \<open>Some\<close> exactly when \<open>config.env\<close> is an array.
  \<open>ContinueRcJson\<close> is a partial configuration together with a \<open>mergeBehavior\<close>.
\<close>

record SerializedContinueConfig =
  env :: "string list option"
  allowAnonymousTelemetry :: "bool option"
  disableIndexing :: "bool option"
  userToken :: "string option"

datatype ConfigMergeType = Merge | Overwrite

record ContinueRcJson = SerializedContinueConfig +
  mergeBehavior :: ConfigMergeType

record ConfigValidationError =
  fatal :: bool
  message :: string

record 'c ConfigResult =
  errors :: "ConfigValidationError list option"
  config :: "'c option"
  configLoadInterrupted :: bool

record IdeSettings =
  remoteConfigServerUrl :: "string option"

datatype error =
    ReadFileError
  | JsoncSyntaxError
  | RegExpSyntaxError
  | FailedToParseConfigJson error

text \<open>
  What the loader reads from outside its arguments: the file system, the process
  environment, the entries of the \<open>.env\<close> file returned by \<open>getContinueDotEnv()\<close>,
  \<open>os.platform()\<close> and the CPU probe \<open>isSupportedLanceDbCpuTargetForLinux(ide)\<close>.
\<close>

record Ambient =
  files :: "string \<rightharpoonup> string"
  process_env :: "string \<rightharpoonup> string"
  continueDotEnv :: "string \<rightharpoonup> string"
  os_platform :: string
  lanceDbCpuSupported :: bool

text \<open>
  Library and helper functions whose code is outside this file; the model takes them
  as parameters.
  \<^item> \<open>JSONC_parse\<close>: \<open>JSONC.parse(content)\<close> cast to the configuration type, \<open>None\<close> when it
    throws or yields no object.
  \<^item> \<open>replaceAllRegExp p r s\<close>: \<open>s.replaceAll(new RegExp(p, "g"), r)\<close>, \<open>None\<close> when the
    pattern is not a regular expression.
  \<^item> \<open>objectPrototype\<close>: the names every object inherits, with their rendering in a template
    string (the \<open>in\<close> operator sees them).
  \<^item> \<open>getConfigJsonPath\<close>, \<open>getConfigJsonPathForRemote\<close>: from \<open>util/paths\<close>.
  \<^item> \<open>validateConfig\<close>: from \<open>validation.ts\<close>; \<open>None\<close> is \<open>undefined\<close>.
  \<^item> \<open>mergeJson\<close>, \<open>mergeJsonRc\<close>: \<open>mergeJson(first, second, mergeBehavior, configMergeKeys)\<close>
    from \<open>util/merge\<close>, at the two types of its second argument.
\<close>

record Externals =
  JSONC_parse :: "string \<Rightarrow> SerializedContinueConfig option"
  replaceAllRegExp :: "string \<Rightarrow> string \<Rightarrow> string \<Rightarrow> string option"
  objectPrototype :: "string \<rightharpoonup> string"
  getConfigJsonPath :: string
  getConfigJsonPathForRemote :: "string \<Rightarrow> string"
  validateConfig :: "SerializedContinueConfig \<Rightarrow> ConfigValidationError list option"
  mergeJson ::
    "SerializedContinueConfig \<Rightarrow> SerializedContinueConfig \<Rightarrow> ConfigMergeType
      \<Rightarrow> SerializedContinueConfig"
  mergeJsonRc ::
    "SerializedContinueConfig \<Rightarrow> ContinueRcJson \<Rightarrow> ConfigMergeType
      \<Rightarrow> SerializedContinueConfig"

subsection \<open>\<open>resolveSerializedConfig\<close>\<close>

text \<open>
  The object \<open>{...process.env, ...getContinueDotEnv()}\<close>: later entries win, inherited
  names stay visible to \<open>in\<close>.
\<close>

definition mergedEnv :: "Externals \<Rightarrow> Ambient \<Rightarrow> (string \<rightharpoonup> string)" where
  "mergedEnv X A = objectPrototype X ++ process_env A ++ continueDotEnv A"

text \<open>
  The \<open>forEach\<close> over \<open>config.env\<close>: every name found in the environment has its quoted
  occurrences in the file's text replaced by the quoted value.
\<close>

fun substituteEnv ::
  "Externals \<Rightarrow> (string \<rightharpoonup> string) \<Rightarrow> string list \<Rightarrow> string \<Rightarrow> error + string" where
  "substituteEnv X e [] content = Inr content"
| "substituteEnv X e (envVar # rest) content =
     (case e envVar of
        None \<Rightarrow> substituteEnv X e rest content
      | Some v \<Rightarrow>
          (case replaceAllRegExp X ([CHR 0x22] @ envVar @ [CHR 0x22])
                  ([CHR 0x22] @ v @ [CHR 0x22]) content of
             None \<Rightarrow> Inl RegExpSyntaxError
           | Some content' \<Rightarrow> substituteEnv X e rest content'))"

definition resolveSerializedConfig ::
  "Externals \<Rightarrow> Ambient \<Rightarrow> string \<Rightarrow> error + SerializedContinueConfig" where
  "resolveSerializedConfig X A filepath =
     (case files A filepath of
        None \<Rightarrow> Inl ReadFileError
      | Some content \<Rightarrow>
          (case JSONC_parse X content of
             None \<Rightarrow> Inl JsoncSyntaxError
           | Some cfg \<Rightarrow>
               (case (case env cfg of
                        None \<Rightarrow> Inr content
                      | Some vars \<Rightarrow> substituteEnv X (mergedEnv X A) vars content) of
                  Inl err \<Rightarrow> Inl err
                | Inr content' \<Rightarrow>
                    (case JSONC_parse X content' of
                       None \<Rightarrow> Inl JsoncSyntaxError
                     | Some cfg' \<Rightarrow> Inr cfg'))))"

subsection \<open>\<open>loadSerializedConfig\<close>\<close>

text \<open>A string used as a condition: \<open>undefined\<close> and the empty string are falsy.\<close>

fun truthy :: "string option \<Rightarrow> bool" where
  "truthy None = False"
| "truthy (Some s) = (s \<noteq> [])"

text \<open>\<open>errors?.some((error) => error.fatal)\<close>.\<close>

definition someFatal :: "ConfigValidationError list option \<Rightarrow> bool" where
  "someFatal errs = (case errs of None \<Rightarrow> False | Some es \<Rightarrow> list_ex fatal es)"

text \<open>Lines 140 to 142: the default of \<open>allowAnonymousTelemetry\<close>.\<close>

definition defaultTelemetry :: "SerializedContinueConfig \<Rightarrow> SerializedContinueConfig" where
  "defaultTelemetry c =
     (if allowAnonymousTelemetry c = None then c\<lparr>allowAnonymousTelemetry := Some True\<rparr> else c)"

text \<open>
  Lines 144 to 153: the remote configuration is merged in when the setting is a
  non-empty string and the remote file resolves; any exception is caught and only logged.
\<close>

definition mergeRemote ::
  "Externals \<Rightarrow> Ambient \<Rightarrow> IdeSettings \<Rightarrow> SerializedContinueConfig \<Rightarrow> SerializedContinueConfig" where
  "mergeRemote X A ideSettings c =
     (case remoteConfigServerUrl ideSettings of
        None \<Rightarrow> c
      | Some url \<Rightarrow>
          if url = [] then c
          else
            (case resolveSerializedConfig X A (getConfigJsonPathForRemote X url) of
               Inl _ \<Rightarrow> c
             | Inr remoteConfigJson \<Rightarrow> mergeJson X c remoteConfigJson Merge))"

text \<open>Lines 155 to 162: the loop over the workspace configurations.\<close>

fun mergeWorkspace ::
  "Externals \<Rightarrow> SerializedContinueConfig \<Rightarrow> ContinueRcJson list \<Rightarrow> SerializedContinueConfig" where
  "mergeWorkspace X c [] = c"
| "mergeWorkspace X c (workspaceConfig # rest) =
     mergeWorkspace X (mergeJsonRc X c workspaceConfig (mergeBehavior workspaceConfig)) rest"

text \<open>Lines 164 to 166.\<close>

definition disableIndexingOnLinux ::
  "Ambient \<Rightarrow> SerializedContinueConfig \<Rightarrow> SerializedContinueConfig" where
  "disableIndexingOnLinux A c =
     (if os_platform A = ''linux'' \<and> \<not> lanceDbCpuSupported A
      then c\<lparr>disableIndexing := Some True\<rparr> else c)"

text \<open>
  \<open>loadSerializedConfig(workspaceConfigs, ideSettings, ideType, overrideConfigJson, ide)\<close>.
  \<open>ideType\<close> is not used by the body and \<open>ide\<close> only by the CPU probe. \<open>initialConfig\<close> is
  lines 121 to 128: the override when there is one, else the configuration file; \<open>Inl\<close>
  is the exception thrown when the file cannot be resolved. The assignments to the
  fields of \<open>config\<close> are modelled on the value that the function returns.
\<close>

definition initialConfig ::
  "Externals \<Rightarrow> Ambient \<Rightarrow> SerializedContinueConfig option \<Rightarrow> error + SerializedContinueConfig" where
  "initialConfig X A overrideConfigJson =
     (case overrideConfigJson of
        Some c \<Rightarrow> Inr c
      | None \<Rightarrow>
          (case resolveSerializedConfig X A (getConfigJsonPath X) of
             Inl e \<Rightarrow> Inl (FailedToParseConfigJson e)
           | Inr c \<Rightarrow> Inr c))"

definition loadSerializedConfig ::
  "Externals \<Rightarrow> Ambient \<Rightarrow> ContinueRcJson list \<Rightarrow> IdeSettings \<Rightarrow>
   SerializedContinueConfig option \<Rightarrow> error + SerializedContinueConfig ConfigResult" where
  "loadSerializedConfig X A workspaceConfigs ideSettings overrideConfigJson =
     (case initialConfig X A overrideConfigJson of
        Inl e \<Rightarrow> Inl e
      | Inr c \<Rightarrow>
          (let errs = validateConfig X c in
           if someFatal errs then
             Inr \<lparr>errors = errs, config = None, configLoadInterrupted = True\<rparr>
           else
             Inr \<lparr>errors = errs,
                  config = Some (disableIndexingOnLinux A
                             (mergeWorkspace X
                               (mergeRemote X A ideSettings (defaultTelemetry c))
                               workspaceConfigs)),
                  configLoadInterrupted = False\<rparr>))"

section \<open>From the intermediate to the final configuration\<close>

subsection \<open>Data\<close>

text \<open>
  The fields of an \<open>ILLM\<close> that \<open>intermediateToFinalConfig\<close> reads or writes. Request
  options are an object's entries; an \<open>undefined\<close> object spreads to no entry.
\<close>

record BaseLLM =
  providerName :: string
  model :: string
  title :: "string option"
  requestOptions :: "string \<rightharpoonup> string"
  roles :: "string list option"

text \<open>
  An entry of \<open>config.models\<close> is a \<open>ModelDescription\<close> (it has a \<open>title\<close>) or a
  \<open>CustomLLM\<close>; the latter is an object of user code and stays opaque.
\<close>

record ModelDescription =
  descTitle :: string
  descProvider :: string
  descModel :: string

typedecl CustomLLM

datatype ModelEntry = WithTitle ModelDescription | Custom CustomLLM

datatype TabAutocompleteModel = Single ModelEntry | Several "ModelEntry list"

text \<open>
  \<open>config.embeddingsProvider\<close>: an injected \<open>ILLM\<close>, or a description with its \<open>provider\<close>
  and its optional \<open>model\<close>. \<open>config.reranker\<close>: an injected \<open>ILLM\<close>, or a description with
  its \<open>name\<close> and its optional \<open>params\<close>, of which \<open>modelTitle\<close> and \<open>model\<close> are read.
\<close>

datatype EmbeddingsConfig =
    EmbeddingsILLM BaseLLM
  | EmbeddingsProviderDescription string "string option"

record RerankerParams =
  modelTitle :: "string option"
  paramsModel :: "string option"

datatype RerankerConfig =
    RerankerILLM BaseLLM
  | RerankerDescription string "RerankerParams option"

record Config =
  models :: "ModelEntry list"
  tabAutocompleteModel :: "TabAutocompleteModel option"
  configRequestOptions :: "string \<rightharpoonup> string"
  embeddingsProvider :: "EmbeddingsConfig option"
  reranker :: "RerankerConfig option"

text \<open>One value per model role (\<open>apply\<close> is written \<open>applyRole\<close>).\<close>

record 'a ByRole =
  chat :: 'a
  edit :: 'a
  applyRole :: 'a
  summarize :: 'a
  autocomplete :: 'a
  embed :: 'a
  rerank :: 'a

record ContinueConfig =
  modelsByRole :: "BaseLLM list ByRole"
  selectedModelByRole :: "BaseLLM option ByRole"

text \<open>
  Functions and classes imported by \<open>load.ts\<close>, taken as parameters.
  \<^item> \<open>llmFromDescription\<close>: \<open>None\<close> is \<open>undefined\<close>; the arguments other than the
    description are the same at every call.
  \<^item> \<open>listModels\<close>: \<open>None\<close> when \<open>llm.listModels()\<close> throws.
  \<^item> \<open>newCustomLLMClass withLogger desc\<close>: \<open>new CustomLLMClass(...)\<close>, with or without
    the logger option.
  \<^item> \<open>settleOrder\<close>: the callbacks under \<open>Promise.all\<close> push to the shared array as
    they complete; the function gives the order in which the per-entry results arrive.
  \<^item> \<open>LLMClasses\<close>: \<open>LLMClasses.find((c) => c.providerName === name)\<close>, giving the
    constructor applied to the \<open>model\<close> option.
  \<^item> \<open>getModelByRole\<close>: from \<open>./util\<close>.
\<close>

record FinalExternals =
  llmFromDescription :: "ModelDescription \<Rightarrow> BaseLLM option"
  listModels :: "BaseLLM \<Rightarrow> string list option"
  newCustomLLMClass :: "bool \<Rightarrow> CustomLLM \<Rightarrow> BaseLLM"
  settleOrder :: "BaseLLM list list \<Rightarrow> BaseLLM list list"
  newTransformersJsEmbeddingsProvider :: BaseLLM
  LLMClasses :: "string \<Rightarrow> (string \<Rightarrow> BaseLLM) option"
  newLLMReranker :: "BaseLLM \<Rightarrow> BaseLLM"
  getModelByRole :: "ContinueConfig \<Rightarrow> string \<Rightarrow> BaseLLM option"

subsection \<open>The chat models\<close>

text \<open>
  Lines 263 to 337, one entry of \<open>config.models\<close>. A described model whose \<open>model\<close> is
  \<open>AUTODETECT\<close> is replaced by the models it lists. In the branch of a custom model the
  detected models are pushed to the array declared inside that branch, so nothing
  reaches the outer \<open>models\<close>.
\<close>

definition modelsFromEntry :: "FinalExternals \<Rightarrow> ModelEntry \<Rightarrow> BaseLLM list" where
  "modelsFromEntry F entry =
     (case entry of
        WithTitle desc \<Rightarrow>
          (case llmFromDescription F desc of
             None \<Rightarrow> []
           | Some llm \<Rightarrow>
               if model llm = ''AUTODETECT'' then
                 (case listModels F llm of
                    None \<Rightarrow> []
                  | Some modelNames \<Rightarrow>
                      List.map_filter
                        (\<lambda>modelName. llmFromDescription F
                             (desc\<lparr>descTitle := modelName, descModel := modelName\<rparr>))
                        modelNames)
               else [llm])
      | Custom desc \<Rightarrow>
          (let llm = newCustomLLMClass F True desc
           in if model llm = ''AUTODETECT'' then [] else [llm]))"

text \<open>\<open>applyRequestOptionsToModels(models, config, roles)\<close>.\<close>

definition applyRequestOptionsToModels ::
  "BaseLLM list \<Rightarrow> Config \<Rightarrow> string list option \<Rightarrow> BaseLLM list" where
  "applyRequestOptionsToModels ms cfg rs =
     map (\<lambda>m.
            let m' = m\<lparr>requestOptions := requestOptions m ++ configRequestOptions cfg\<rparr>
            in (case rs of
                  None \<Rightarrow> m'
                | Some r \<Rightarrow> m'\<lparr>roles := Some (case roles m' of None \<Rightarrow> r | Some x \<Rightarrow> x)\<rparr>))
         ms"

text \<open>
  Lines 347 to 352: the filter, then the test that sets \<open>warnAboutFreeTrial\<close>. The pair is
  the filtered array and the flag.
\<close>

definition ignoreFreeTrial :: "BaseLLM list \<Rightarrow> BaseLLM list \<times> bool" where
  "ignoreFreeTrial ms =
     (let warnAboutFreeTrial = False;
          ms' = filter (\<lambda>m. providerName m \<noteq> ''free-trial'') ms
      in (ms',
          if length (filter (\<lambda>m. providerName m = ''free-trial'') ms') \<noteq> 0 then True
          else warnAboutFreeTrial))"

definition chatModels :: "FinalExternals \<Rightarrow> Config \<Rightarrow> BaseLLM list \<times> bool" where
  "chatModels F cfg =
     ignoreFreeTrial
       (applyRequestOptionsToModels
          (concat (settleOrder F (map (modelsFromEntry F) (models cfg))))
          cfg (Some [''chat'', ''apply'', ''edit'', ''summarize'']))"

subsection \<open>Tab autocomplete, embeddings, reranker\<close>

text \<open>Lines 363 to 382, one entry: the model it contributes and whether it sets the flag.\<close>

definition autocompleteFromEntry :: "FinalExternals \<Rightarrow> ModelEntry \<Rightarrow> BaseLLM list \<times> bool" where
  "autocompleteFromEntry F entry =
     (case entry of
        WithTitle desc \<Rightarrow>
          (case llmFromDescription F desc of
             None \<Rightarrow> ([], False)
           | Some llm \<Rightarrow>
               if providerName llm = ''free-trial'' then ([], True) else ([llm], False))
      | Custom desc \<Rightarrow> ([newCustomLLMClass F False desc], False))"

definition tabAutocompleteModels :: "FinalExternals \<Rightarrow> Config \<Rightarrow> BaseLLM list \<times> bool" where
  "tabAutocompleteModels F cfg =
     (let autocompleteConfigs =
            (case tabAutocompleteModel cfg of
               None \<Rightarrow> []
             | Some (Single d) \<Rightarrow> [d]
             | Some (Several ds) \<Rightarrow> ds);
          results = map (autocompleteFromEntry F) autocompleteConfigs
      in (applyRequestOptionsToModels (concat (settleOrder F (map fst results))) cfg None,
          list_ex snd results))"

text \<open>
  \<open>getEmbeddingsILLM\<close>: the embedder, whether the flag is set, and the errors pushed.
\<close>

definition getEmbeddingsILLM ::
  "FinalExternals \<Rightarrow> string \<Rightarrow> EmbeddingsConfig option
     \<Rightarrow> BaseLLM option \<times> bool \<times> ConfigValidationError list" where
  "getEmbeddingsILLM F ideType embedConfig =
     (let fallback = (if ideType = ''vscode''
                      then Some (newTransformersJsEmbeddingsProvider F) else None)
      in case embedConfig of
           None \<Rightarrow> (fallback, False, [])
         | Some (EmbeddingsILLM llm) \<Rightarrow> (Some llm, False, [])
         | Some (EmbeddingsProviderDescription prov optModel) \<Rightarrow>
             if prov = ''transformers.js'' \<or> prov = ''free-trial'' then
               (Some (newTransformersJsEmbeddingsProvider F), prov = ''free-trial'', [])
             else
               (case LLMClasses F prov of
                  Some cls \<Rightarrow>
                    (Some (cls (case optModel of None \<Rightarrow> ''UNSPECIFIED'' | Some x \<Rightarrow> x)),
                     False, [])
                | None \<Rightarrow>
                    (fallback, False,
                     [\<lparr>fatal = False,
                       message = ''Embeddings provider '' @ prov @ '' not found''\<rparr>])))"

text \<open>\<open>String(x)\<close> of an optional string, as a template literal renders it.\<close>

definition render :: "string option \<Rightarrow> string" where
  "render x = (case x of None \<Rightarrow> ''undefined'' | Some s \<Rightarrow> s)"

text \<open>
  \<open>getRerankingILLM\<close>, called after the chat models are final: the reranker, whether the
  flag is set, and the errors pushed.
\<close>

definition getRerankingILLM ::
  "FinalExternals \<Rightarrow> BaseLLM list \<Rightarrow> RerankerConfig option
     \<Rightarrow> BaseLLM option \<times> bool \<times> ConfigValidationError list" where
  "getRerankingILLM F ms rerankingConfig =
     (case rerankingConfig of
        None \<Rightarrow> (None, False, [])
      | Some (RerankerILLM llm) \<Rightarrow> (Some llm, False, [])
      | Some (RerankerDescription name params) \<Rightarrow>
          if name = ''free-trial'' then (None, True, [])
          else if name = ''llm'' then
            (let wanted = (case params of None \<Rightarrow> None | Some p \<Rightarrow> modelTitle p)
             in case find (\<lambda>m. title m = wanted) ms of
                  None \<Rightarrow>
                    (None, False,
                     [\<lparr>fatal = False,
                       message = ''Unknown reranking model '' @ render wanted\<rparr>])
                | Some llm \<Rightarrow> (Some (newLLMReranker F llm), False, []))
          else
            (case LLMClasses F name of
               Some cls \<Rightarrow>
                 (Some (cls (case (case params of None \<Rightarrow> None | Some p \<Rightarrow> paramsModel p) of
                               None \<Rightarrow> ''UNSPECIFIED'' | Some x \<Rightarrow> x)),
                  False, [])
             | None \<Rightarrow>
                 (None, False,
                  [\<lparr>fatal = False,
                    message = ''Unknown reranking provider '' @ name\<rparr>])))"

definition freeTrialWarning :: ConfigValidationError where
  "freeTrialWarning =
     \<lparr>fatal = False,
      message = ''Model provider 'free-trial' is no longer supported, will be ignored''\<rparr>"


subsection \<open>\<open>intermediateToFinalConfig\<close>\<close>

text \<open>
  Lines 585 to 618: a model named by \<open>experimental.modelRoles\<close> becomes the only \<open>edit\<close>
  (or \<open>apply\<close>) model when the chat models have one of that title. Both error messages
  print \<open>inlineEditModel\<close>, as the source does.
\<close>

definition roleTitle :: "FinalExternals \<Rightarrow> ContinueConfig \<Rightarrow> string \<Rightarrow> string option" where
  "roleTitle F cc role = (case getModelByRole F cc role of None \<Rightarrow> None | Some m \<Rightarrow> title m)"

definition selectInlineEdit ::
  "FinalExternals \<Rightarrow> ContinueConfig \<Rightarrow> ContinueConfig \<times> ConfigValidationError list" where
  "selectInlineEdit F cc =
     (let inlineEditModel = roleTitle F cc ''inlineEdit''
      in if truthy inlineEditModel then
           (case find (\<lambda>m. title m = inlineEditModel) (chat (modelsByRole cc)) of
              Some match \<Rightarrow>
                (cc\<lparr>selectedModelByRole := (selectedModelByRole cc)\<lparr>edit := Some match\<rparr>,
                    modelsByRole := (modelsByRole cc)\<lparr>edit := [match]\<rparr>\<rparr>, [])
            | None \<Rightarrow>
                (cc, [\<lparr>fatal = False,
                       message = ''experimental.modelRoles.inlineEdit model title ''
                                 @ render inlineEditModel
                                 @ '' not found in models array''\<rparr>]))
         else (cc, []))"

definition selectApplyCodeBlock ::
  "FinalExternals \<Rightarrow> string option \<Rightarrow> ContinueConfig
     \<Rightarrow> ContinueConfig \<times> ConfigValidationError list" where
  "selectApplyCodeBlock F inlineEditModel cc =
     (let applyBlockModel = roleTitle F cc ''applyCodeBlock''
      in if truthy applyBlockModel then
           (case find (\<lambda>m. title m = applyBlockModel) (chat (modelsByRole cc)) of
              Some match \<Rightarrow>
                (cc\<lparr>selectedModelByRole := (selectedModelByRole cc)\<lparr>applyRole := Some match\<rparr>,
                    modelsByRole := (modelsByRole cc)\<lparr>applyRole := [match]\<rparr>\<rparr>, [])
            | None \<Rightarrow>
                (cc, [\<lparr>fatal = False,
                       message = ''experimental.modelRoles.applyCodeBlock model title ''
                                 @ render inlineEditModel
                                 @ '' not found in models array''\<rparr>]))
         else (cc, []))"

text \<open>Lines 620 to 630.\<close>

definition addTransformersJs :: "FinalExternals \<Rightarrow> string \<Rightarrow> ContinueConfig \<Rightarrow> ContinueConfig" where
  "addTransformersJs F ideType cc =
     (if ideType = ''vscode''
         \<and> find (\<lambda>m. providerName m = ''transformers.js'') (embed (modelsByRole cc)) = None
      then cc\<lparr>modelsByRole :=
                (modelsByRole cc)\<lparr>embed := embed (modelsByRole cc)
                                            @ [newTransformersJsEmbeddingsProvider F]\<rparr>\<rparr>
      else cc)"

text \<open>
  \<open>intermediateToFinalConfig\<close>, as far as the models and the errors go: the context
  providers, tools, slash commands, rules and the MCP refresh neither read nor write
  them. \<open>ideType\<close> is \<open>ideInfo.ideType\<close>. The result is \<open>{ config, errors }\<close>.
\<close>

definition intermediateToFinalConfig ::
  "FinalExternals \<Rightarrow> string \<Rightarrow> Config \<Rightarrow> ContinueConfig \<times> ConfigValidationError list" where
  "intermediateToFinalConfig F ideType cfg =
     (let (ms, warnChat) = chatModels F cfg;
          (tabs, warnTab) = tabAutocompleteModels F cfg;
          (newEmbedder, warnEmbed, errsEmbed) =
             getEmbeddingsILLM F ideType (embeddingsProvider cfg);
          (newReranker, warnRerank, errsRerank) = getRerankingILLM F ms (reranker cfg);
          warnAboutFreeTrial = (warnChat \<or> warnTab \<or> warnEmbed \<or> warnRerank);
          errs = errsEmbed @ errsRerank
                 @ (if warnAboutFreeTrial then [freeTrialWarning] else []);
          continueConfig =
            \<lparr>modelsByRole =
               \<lparr>chat = ms, edit = ms, applyRole = ms, summarize = ms,
                autocomplete = tabs,
                embed = (case newEmbedder of None \<Rightarrow> [] | Some e \<Rightarrow> [e]),
                rerank = (case newReranker of None \<Rightarrow> [] | Some r \<Rightarrow> [r])\<rparr>,
             selectedModelByRole =
               \<lparr>chat = None, edit = None, applyRole = None, summarize = None,
                autocomplete = None, embed = newEmbedder, rerank = newReranker\<rparr>\<rparr>;
          inlineEditModel = roleTitle F continueConfig ''inlineEdit'';
          (cc1, errsEdit) = selectInlineEdit F continueConfig;
          (cc2, errsApply) = selectApplyCodeBlock F inlineEditModel cc1
      in (addTransformersJs F ideType cc2, errs @ errsEdit @ errsApply))"

section \<open>The Anthropic adapter: \<open>packages/openai-adapters/src/apis/Anthropic.ts\<close>\<close>

subsection \<open>Numbers\<close>

text \<open>
  Token counts are JavaScript numbers. The model holds the numbers that are
  non-negative integers and \<open>Infinity\<close>, the values that sums of token counts take. On
  these, \<open>a + b\<close> is the exact sum rounded to the nearest double, ties to even, and
  \<open>Infinity\<close> from \<open>2 ^ 1024\<close> on. A count that is negative or has a fraction is outside
  the model.
\<close>

datatype JsNumber = Num nat | Infinity

text \<open>
  \<open>excessBits n\<close> is the number of low bits of \<open>n\<close> that do not fit the 53 bits of a
  double's significand.
\<close>

function excessBits :: "nat \<Rightarrow> nat" where
  "excessBits n = (if n < 2 ^ 53 then 0 else Suc (excessBits (n div 2)))"
  by pat_completeness auto
termination
  by (relation "measure (\<lambda>n. n)") auto

declare excessBits.simps [simp del]

text \<open>
  The double nearest to a natural number: the leading 53 bits are kept and the rest is
  rounded, a tie going to the even significand.
\<close>

definition roundToDouble :: "nat \<Rightarrow> JsNumber" where
  "roundToDouble n =
     (let sh = excessBits n;
          q = n div 2 ^ sh;
          rest = n mod 2 ^ sh;
          q' = (if 2 ^ sh < 2 * rest \<or> (2 * rest = 2 ^ sh \<and> odd q) then q + 1 else q);
          rounded = q' * 2 ^ sh
      in if rounded < 2 ^ 1024 then Num rounded else Infinity)"

text \<open>\<open>x + y\<close> on these numbers.\<close>

fun jsAdd :: "JsNumber \<Rightarrow> JsNumber \<Rightarrow> JsNumber" where
  "jsAdd (Num a) (Num b) = roundToDouble (a + b)"
| "jsAdd (Num a) Infinity = Infinity"
| "jsAdd Infinity y = Infinity"

subsection \<open>Usage\<close>

text \<open>
  \<open>CompletionUsage\<close>, with the fields the adapter writes; \<open>cached_tokens\<close> is the field of
  that name of \<open>prompt_tokens_details\<close>, \<open>None\<close> when that object is absent.
\<close>

record CompletionUsage =
  completion_tokens :: JsNumber
  prompt_tokens :: JsNumber
  total_tokens :: JsNumber
  cached_tokens :: "JsNumber option"

text \<open>
  The vendor's usage object is a \<open>Record<string, number> | undefined\<close>.
  \<open>orZero vendorUsage k\<close> is \<open>usage?.k ?? 0\<close>.
\<close>

type_synonym VendorUsage = "(string \<rightharpoonup> JsNumber) option"

definition orZero :: "VendorUsage \<Rightarrow> string \<Rightarrow> JsNumber" where
  "orZero vendorUsage k =
     (case vendorUsage of
        None \<Rightarrow> Num 0
      | Some u \<Rightarrow> (case u k of None \<Rightarrow> Num 0 | Some n \<Rightarrow> n))"

text \<open>
  The \<open>usage\<close> object of the response of \<open>chatCompletionNonStream\<close>, built from
  \<open>completion.usage\<close>.
\<close>

definition nonStreamUsage :: "VendorUsage \<Rightarrow> CompletionUsage" where
  "nonStreamUsage vendorUsage =
     \<lparr>completion_tokens = orZero vendorUsage ''output_tokens'',
      prompt_tokens = orZero vendorUsage ''input_tokens'',
      total_tokens =
        jsAdd (orZero vendorUsage ''input_tokens'') (orZero vendorUsage ''output_tokens''),
      cached_tokens = Some (orZero vendorUsage ''cache_read_input_tokens'')\<rparr>"

subsection \<open>Stop sequences\<close>

text \<open>
  A stop sequence is a JavaScript string, here the list of its UTF-16 code units.
  \<open>trim\<close> removes white space and line terminators at both ends: tab, line feed,
  vertical tab, form feed, carriage return, space, no-break space, the space separators
  U+1680, U+2000 to U+200A, U+202F, U+205F and U+3000, the line and paragraph separators
  U+2028 and U+2029, and U+FEFF.
\<close>

type_synonym JsString = "nat list"

definition isWhiteSpace :: "nat \<Rightarrow> bool" where
  "isWhiteSpace u =
     (u \<in> set [9, 10, 11, 12, 13, 32, 160, 5760, 8232, 8233, 8239, 8287, 12288, 65279]
      \<or> (8192 \<le> u \<and> u \<le> 8202))"

definition trim :: "JsString \<Rightarrow> JsString" where
  "trim s = rev (dropWhile isWhiteSpace (rev (dropWhile isWhiteSpace s)))"

text \<open>\<open>oaiBody.stop\<close> is a string or an array of strings; \<open>null\<close> and \<open>undefined\<close> are \<open>None\<close>.\<close>

datatype StopInput = StopString JsString | StopList "JsString list"

text \<open>
  The first lines of \<open>_convertToCleanAnthropicBody\<close>: the value of \<open>stop\<close>, \<open>None\<close> when it
  stays \<open>undefined\<close>. An array is filtered; a string that is not blank becomes an array
  of one.
\<close>

definition convertStop :: "StopInput option \<Rightarrow> JsString list option" where
  "convertStop stop =
     (case stop of
        Some (StopList xs) \<Rightarrow> Some (filter (\<lambda>x. trim x \<noteq> []) xs)
      | Some (StopString s) \<Rightarrow> (if trim s \<noteq> [] then Some [s] else None)
      | None \<Rightarrow> None)"

text \<open>
  The fields of the request (\<open>ChatCompletionCreateParams\<close>) that the model follows into
  the Anthropic body: \<open>model\<close>, \<open>stop\<close>, \<open>max_tokens\<close> and \<open>stream\<close>. The messages, the
  system message, the sampling parameters and the tools are built from other fields and
  are left out.
\<close>

record ChatCompletionCreateParams =
  requestModel :: string
  requestStop :: "StopInput option"
  requestMaxTokens :: "JsNumber option"
  requestStream :: "bool option"

text \<open>
  The Anthropic body, with the fields \<open>model\<close>, \<open>stop_sequences\<close>, \<open>max_tokens\<close> and
  \<open>stream\<close>. A field whose value is \<open>undefined\<close> is \<open>None\<close>: \<open>JSON.stringify\<close> leaves it
  out of the request, while an empty array is sent as \<open>[]\<close>.
\<close>

record AnthropicBody =
  bodyModel :: string
  stop_sequences :: "JsString list option"
  max_tokens :: JsNumber
  bodyStream :: "bool option"

definition convertToCleanAnthropicBody :: "ChatCompletionCreateParams \<Rightarrow> AnthropicBody" where
  "convertToCleanAnthropicBody oaiBody =
     \<lparr>bodyModel = requestModel oaiBody,
      stop_sequences = convertStop (requestStop oaiBody),
      max_tokens = (case requestMaxTokens oaiBody of None \<Rightarrow> Num 4096 | Some n \<Rightarrow> n),
      bodyStream = requestStream oaiBody\<rparr>"

subsection \<open>The stream\<close>

text \<open>
  The values that \<open>streamSse\<close> yields, by their \<open>type\<close>. A block start carries
  \<open>content_block\<close> with its \<open>type\<close>, \<open>id\<close> and \<open>name\<close>; \<open>message_start\<close> carries
  \<open>message.usage\<close> and \<open>message_delta\<close> carries \<open>usage\<close>; a delta carries \<open>delta\<close> with its
  \<open>type\<close> and its \<open>text\<close> or \<open>partial_json\<close>. Every other type, \<open>message_stop\<close> among
  them, falls to the \<open>default\<close> branch.
\<close>

record ContentBlock =
  blockType :: string
  blockId :: "string option"
  blockName :: "string option"

datatype Delta = TextDelta string | InputJsonDelta string | OtherDelta string

datatype SseEvent =
    ContentBlockStart ContentBlock
  | MessageStart VendorUsage
  | MessageDelta VendorUsage
  | ContentBlockDelta Delta
  | ContentBlockStop
  | OtherEvent string

text \<open>
  The stream ends with an error when \<open>handleStreamResponse\<close> throws for a tool delta
  without a tool use, or when \<open>streamSse\<close> throws.
\<close>

datatype StreamError = NoToolUseFound | SseError

text \<open>
  The entry of \<open>tool_calls\<close> that \<open>handleStreamResponse\<close> builds for a tool delta: \<open>id\<close>,
  \<open>type\<close>, \<open>index\<close>, and \<open>name\<close> and \<open>arguments\<close> of \<open>function\<close>.
\<close>

record ToolCallDelta =
  toolCallId :: string
  toolCallType :: string
  toolCallIndex :: nat
  functionName :: string
  functionArguments :: string

text \<open>
  Modelled from the spec: the chunk that the helpers \<open>chatChunk\<close>, \<open>chatChunkFromDelta\<close>
  and \<open>usageChatChunk\<close> of \<open>../util.js\<close> build (the helpers are missing). A chunk is the
  canonical streaming unit of section 3 of the specification: model id, optional text
  delta, optional list of tool-call deltas, optional usage record. Each helper fills the
  fields it is given and leaves the others absent.
\<close>

record ChatCompletionChunk =
  chunkModel :: string
  textDelta :: "string option"
  toolCallDeltas :: "ToolCallDelta list option"
  usage :: "CompletionUsage option"

text \<open>
  Modelled from the spec: \<open>chatChunk({ content, model })\<close> of \<open>../util.js\<close> (missing), a
  chunk that carries the text delta and no usage record.
\<close>

definition chatChunk :: "string \<Rightarrow> string \<Rightarrow> ChatCompletionChunk" where
  "chatChunk txt modelId =
     \<lparr>chunkModel = modelId, textDelta = Some txt, toolCallDeltas = None, usage = None\<rparr>"

text \<open>
  Modelled from the spec: \<open>chatChunkFromDelta({ model, delta: { tool_calls } })\<close> of
  \<open>../util.js\<close> (missing), a chunk that carries the tool-call deltas and no usage record.
\<close>

definition chatChunkFromDelta :: "string \<Rightarrow> ToolCallDelta list \<Rightarrow> ChatCompletionChunk" where
  "chatChunkFromDelta modelId calls =
     \<lparr>chunkModel = modelId, textDelta = None, toolCallDeltas = Some calls, usage = None\<rparr>"

text \<open>
  Modelled from the spec: \<open>usageChatChunk({ model, usage })\<close> of \<open>../util.js\<close> (missing),
  the terminal chunk: it carries the usage record and no content delta.
\<close>

definition usageChatChunk :: "string \<Rightarrow> CompletionUsage \<Rightarrow> ChatCompletionChunk" where
  "usageChatChunk modelId u =
     \<lparr>chunkModel = modelId, textDelta = None, toolCallDeltas = None, usage = Some u\<rparr>"

text \<open>The local variables of \<open>handleStreamResponse\<close>.\<close>

record StreamState =
  lastToolUseId :: "string option"
  lastToolUseName :: "string option"
  streamUsage :: CompletionUsage

definition initialStreamState :: StreamState where
  "initialStreamState =
     \<lparr>lastToolUseId = None, lastToolUseName = None,
      streamUsage = \<lparr>completion_tokens = Num 0, prompt_tokens = Num 0, total_tokens = Num 0,
                      cached_tokens = None\<rparr>\<rparr>"

text \<open>
  The body of the loop of \<open>handleStreamResponse\<close> for one value: the new state with the
  chunks yielded, or the error thrown. The test \<open>!lastToolUseId || !lastToolUseName\<close> holds
  when either is \<open>undefined\<close> or the empty string.
\<close>

fun handleSseEvent ::
  "string \<Rightarrow> StreamState \<Rightarrow> SseEvent \<Rightarrow> StreamError + StreamState \<times> ChatCompletionChunk list" where
  "handleSseEvent modelId st (ContentBlockStart block) =
     Inr (if blockType block = ''tool_use''
          then st\<lparr>lastToolUseId := blockId block, lastToolUseName := blockName block\<rparr>
          else st, [])"
| "handleSseEvent modelId st (MessageStart vendorUsage) =
     Inr (st\<lparr>streamUsage := (streamUsage st)
                \<lparr>prompt_tokens := orZero vendorUsage ''input_tokens'',
                 cached_tokens := Some (orZero vendorUsage ''cache_read_input_tokens'')\<rparr>\<rparr>, [])"
| "handleSseEvent modelId st (MessageDelta vendorUsage) =
     Inr (st\<lparr>streamUsage := (streamUsage st)
                \<lparr>completion_tokens := orZero vendorUsage ''output_tokens''\<rparr>\<rparr>, [])"
| "handleSseEvent modelId st (ContentBlockDelta (TextDelta txt)) =
     Inr (st, [chatChunk txt modelId])"
| "handleSseEvent modelId st (ContentBlockDelta (InputJsonDelta partial_json)) =
     (case (lastToolUseId st, lastToolUseName st) of
        (Some toolUseId, Some toolUseName) \<Rightarrow>
          if toolUseId = [] \<or> toolUseName = [] then Inl NoToolUseFound
          else
            Inr (st, [chatChunkFromDelta modelId
                        [\<lparr>toolCallId = toolUseId, toolCallType = ''function'',
                          toolCallIndex = 0, functionName = toolUseName,
                          functionArguments = partial_json\<rparr>]])
      | _ \<Rightarrow> Inl NoToolUseFound)"
| "handleSseEvent modelId st (ContentBlockDelta (OtherDelta deltaType)) = Inr (st, [])"
| "handleSseEvent modelId st ContentBlockStop =
     Inr (st\<lparr>lastToolUseId := None, lastToolUseName := None\<rparr>, [])"
| "handleSseEvent modelId st (OtherEvent eventType) = Inr (st, [])"

text \<open>
  The loop of \<open>handleStreamResponse\<close> and the chunk yielded after it: the usage seen,
  with \<open>total_tokens\<close> set to \<open>completion_tokens + prompt_tokens\<close>. \<open>sseError\<close> is the error
  with which \<open>streamSse\<close> ends, if it does. The result is the chunks yielded and the error
  that ended the stream, if any.
\<close>

fun streamLoop ::
  "string \<Rightarrow> StreamState \<Rightarrow> SseEvent list \<Rightarrow> StreamError option
     \<Rightarrow> ChatCompletionChunk list \<times> StreamError option" where
  "streamLoop modelId st [] sseError =
     (case sseError of
        Some err \<Rightarrow> ([], Some err)
      | None \<Rightarrow>
          ([usageChatChunk modelId
              ((streamUsage st)
                 \<lparr>total_tokens := jsAdd (completion_tokens (streamUsage st))
                                        (prompt_tokens (streamUsage st))\<rparr>)],
           None))"
| "streamLoop modelId st (ev # rest) sseError =
     (case handleSseEvent modelId st ev of
        Inl err \<Rightarrow> ([], Some err)
      | Inr (st', out) \<Rightarrow>
          (case streamLoop modelId st' rest sseError of
             (chunks, err) \<Rightarrow> (out @ chunks, err)))"

definition handleStreamResponse ::
  "SseEvent list \<Rightarrow> StreamError option \<Rightarrow> string
     \<Rightarrow> ChatCompletionChunk list \<times> StreamError option" where
  "handleStreamResponse events sseError modelId =
     streamLoop modelId initialStreamState events sseError"

text \<open>A terminal chunk is a chunk that carries a usage record.\<close>

definition isTerminal :: "ChatCompletionChunk \<Rightarrow> bool" where
  "isTerminal c = (usage c \<noteq> None)"

text \<open>
  The value of a stream with one entry of its usage objects set: \<open>withUsageEntry k x\<close>
  sets the entry \<open>k\<close> of the usage object of a \<open>message_start\<close> or \<open>message_delta\<close> value
  that has one.
\<close>

fun withUsageEntry :: "string \<Rightarrow> JsNumber \<Rightarrow> SseEvent \<Rightarrow> SseEvent" where
  "withUsageEntry k x (MessageStart (Some u)) = MessageStart (Some (u(k \<mapsto> x)))"
| "withUsageEntry k x (MessageDelta (Some u)) = MessageDelta (Some (u(k \<mapsto> x)))"
| "withUsageEntry k x ev = ev"


section \<open>Concrete parameters and inputs\<close>

text \<open>
  Instances of the parameters, used to evaluate the functions on concrete inputs.
  \<open>replaceAllLiteral\<close> replaces every occurrence of a literal text from left to right; it
  is what \<open>replaceAll\<close> with a global regular expression does when the pattern has no
  metacharacter and the replacement no dollar sign.
\<close>

function replaceAllLiteral :: "string \<Rightarrow> string \<Rightarrow> string \<Rightarrow> string" where
  "replaceAllLiteral pat rep [] = []"
| "replaceAllLiteral pat rep (c # cs) =
     (if pat \<noteq> [] \<and> take (length pat) (c # cs) = pat
      then rep @ replaceAllLiteral pat rep (drop (length pat - 1) cs)
      else c # replaceAllLiteral pat rep cs)"
  by pat_completeness auto
termination
  by (relation "measure (\<lambda>(pat, rep, s). length s)") auto

text \<open>\<open>JSONC.parse\<close> on three documents; on any other text this instance throws.\<close>

definition exampleParse :: "string \<Rightarrow> SerializedContinueConfig option" where
  \<open>exampleParse s =
     (if s = ''{"env":["TOKEN"],"userToken":"TOKEN"}'' then
        Some \<lparr>env = Some [''TOKEN''], allowAnonymousTelemetry = None,
              disableIndexing = None, userToken = Some ''TOKEN''\<rparr>
      else if s = ''{"env":["abc"],"userToken":"abc"}'' then
        Some \<lparr>env = Some [''abc''], allowAnonymousTelemetry = None,
              disableIndexing = None, userToken = Some ''abc''\<rparr>
      else if s = ''{"env":["xyz"],"userToken":"xyz"}'' then
        Some \<lparr>env = Some [''xyz''], allowAnonymousTelemetry = None,
              disableIndexing = None, userToken = Some ''xyz''\<rparr>
      else None)\<close>

text \<open>
  A merge in which every field set by the second argument replaces the first
  argument's, whatever the merge behaviour.
\<close>

definition overlayFields ::
  "SerializedContinueConfig \<Rightarrow> 'a SerializedContinueConfig_scheme \<Rightarrow> ConfigMergeType
     \<Rightarrow> SerializedContinueConfig" where
  "overlayFields a b behaviour =
     \<lparr>env = (case env b of None \<Rightarrow> env a | Some x \<Rightarrow> Some x),
      allowAnonymousTelemetry =
        (case allowAnonymousTelemetry b of None \<Rightarrow> allowAnonymousTelemetry a | Some x \<Rightarrow> Some x),
      disableIndexing =
        (case disableIndexing b of None \<Rightarrow> disableIndexing a | Some x \<Rightarrow> Some x),
      userToken = (case userToken b of None \<Rightarrow> userToken a | Some x \<Rightarrow> Some x)\<rparr>"

definition exampleExternals :: Externals where
  "exampleExternals =
     \<lparr>JSONC_parse = exampleParse,
      replaceAllRegExp = (\<lambda>pat rep s. Some (replaceAllLiteral pat rep s)),
      objectPrototype = Map.empty,
      getConfigJsonPath = ''/home/dev/.continue/config.json'',
      getConfigJsonPathForRemote = (\<lambda>url. ''/home/dev/.continue/.configs/'' @ url @ ''/config.json''),
      validateConfig = (\<lambda>c. Some []),
      mergeJson = overlayFields,
      mergeJsonRc = overlayFields\<rparr>"

definition exampleAmbient :: "(string \<rightharpoonup> string) \<Rightarrow> Ambient" where
  \<open>exampleAmbient environment =
     \<lparr>files = [''/home/dev/.continue/config.json''
                  \<mapsto> ''{"env":["TOKEN"],"userToken":"TOKEN"}''],
      process_env = environment,
      continueDotEnv = Map.empty,
      os_platform = ''darwin'',
      lanceDbCpuSupported = True\<rparr>\<close>

definition emptyConfig :: SerializedContinueConfig where
  "emptyConfig =
     \<lparr>env = None, allowAnonymousTelemetry = None, disableIndexing = None, userToken = None\<rparr>"


text \<open>Instances for \<open>intermediateToFinalConfig\<close>: nothing is auto-detected, no class is found.\<close>

definition exampleLlm :: "ModelDescription \<Rightarrow> BaseLLM" where
  "exampleLlm desc =
     \<lparr>providerName = descProvider desc, model = descModel desc, title = Some (descTitle desc),
      requestOptions = Map.empty, roles = None\<rparr>"

definition exampleFinalExternals :: FinalExternals where
  "exampleFinalExternals =
     \<lparr>llmFromDescription = (\<lambda>desc. Some (exampleLlm desc)),
      listModels = (\<lambda>llm. Some []),
      newCustomLLMClass =
        (\<lambda>withLogger desc.
           \<lparr>providerName = ''custom'', model = ''custom'', title = None,
            requestOptions = Map.empty, roles = None\<rparr>),
      settleOrder = (\<lambda>groups. groups),
      newTransformersJsEmbeddingsProvider =
        \<lparr>providerName = ''transformers.js'', model = ''all-MiniLM-L6-v2'', title = None,
         requestOptions = Map.empty, roles = None\<rparr>,
      LLMClasses = (\<lambda>name. None),
      newLLMReranker = (\<lambda>llm. llm),
      getModelByRole = (\<lambda>cc role. None)\<rparr>"

definition exampleConfig :: Config where
  "exampleConfig =
     \<lparr>models =
        [WithTitle \<lparr>descTitle = ''Trial'', descProvider = ''free-trial'', descModel = ''gpt-4o''\<rparr>,
         WithTitle \<lparr>descTitle = ''Local'', descProvider = ''ollama'', descModel = ''llama3''\<rparr>],
      tabAutocompleteModel = None,
      configRequestOptions = Map.empty,
      embeddingsProvider = None,
      reranker = None\<rparr>"

section \<open>Properties of the client factory\<close>

lemma constructLlmApi_openAICompatible:
  "(provider cfg, dflt) \<in> set openAICompatibleDefaults \<Longrightarrow>
   constructLlmApi cfg =
     Some (OpenAIApi (cfg\<lparr>apiBase := Some (case apiBase cfg of None \<Rightarrow> dflt | Some b \<Rightarrow> b)\<rparr>))"
  unfolding openAICompatibleDefaults_def
  by (simp only: list.set insert_iff empty_iff prod.inject simp_thms)
     (elim disjE conjE; hypsubst; simp add: constructLlmApi_def openAICompatible_def Let_def)

lemma constructLlmApi_registered:
  "provider cfg \<in> set registry \<Longrightarrow> \<exists>client. constructLlmApi cfg = Some client"
  unfolding registry_def dedicatedProviders_def openAICompatibleDefaults_def
  by (simp only: list.set list.map set_append fst_conv insert_iff empty_iff Un_iff simp_thms)
     (elim disjE; simp add: constructLlmApi_def Let_def)

lemma constructLlmApi_unregistered:
  "provider cfg \<notin> set registry \<Longrightarrow> constructLlmApi cfg = None"
  unfolding registry_def dedicatedProviders_def openAICompatibleDefaults_def
  by (simp add: constructLlmApi_def Let_def)

text \<open>
  C1. For a provider identifier outside the registry \<open>constructLlmApi\<close> returns
  \<open>undefined\<close>, the outcome for an unsupported provider, and no client; for an identifier
  in the registry it returns a constructed client.
\<close>

theorem constructLlmApi_registry:
  "(provider cfg \<notin> set registry \<longrightarrow> constructLlmApi cfg = None)
   \<and> (provider cfg \<in> set registry \<longrightarrow> (\<exists>client. constructLlmApi cfg = Some client))"
  using constructLlmApi_registered constructLlmApi_unregistered by blast

theorem constructLlmApi_registry_witness:
  "provider \<lparr>provider = ''no-such-provider'', apiBase = None\<rparr> \<notin> set registry
   \<and> constructLlmApi \<lparr>provider = ''no-such-provider'', apiBase = None\<rparr> = None
   \<and> provider \<lparr>provider = ''anthropic'', apiBase = None\<rparr> \<in> set registry
   \<and> (\<exists>client. constructLlmApi \<lparr>provider = ''anthropic'', apiBase = None\<rparr> = Some client)"
proof -
  have out: "provider \<lparr>provider = ''no-such-provider'', apiBase = None\<rparr> \<notin> set registry"
    by (simp add: registry_def dedicatedProviders_def openAICompatibleDefaults_def)
  have inn: "provider \<lparr>provider = ''anthropic'', apiBase = None\<rparr> \<in> set registry"
    by (simp add: registry_def dedicatedProviders_def openAICompatibleDefaults_def)
  show ?thesis
    using out inn
      constructLlmApi_registry [of "\<lparr>provider = ''no-such-provider'', apiBase = None\<rparr>"]
      constructLlmApi_registry [of "\<lparr>provider = ''anthropic'', apiBase = None\<rparr>"]
    by blast
qed

lemma anthropicApiBase_endsWithSlash: "endsWithSlash (anthropicApiBase cfg)"
  by (simp add: anthropicApiBase_def endsWithSlash_def Let_def split: option.splits)

text \<open>
  C2. The claim asks that the \<open>apiBase\<close> of every client end with a slash. The factory
  hands the generic client \<open>http://localhost:10000\<close> for the provider \<open>msty\<close> with no
  \<open>apiBase\<close> configured, and a configured \<open>apiBase\<close> without a final slash unchanged for
  \<open>mistral\<close>; the constructor of \<open>AnthropicApi\<close> appends the slash to the same value.
\<close>

theorem apiBase_not_normalized:
  "map_option clientApiBase (constructLlmApi \<lparr>provider = ''msty'', apiBase = None\<rparr>)
     = Some (Some ''http://localhost:10000'')
   \<and> \<not> endsWithSlash ''http://localhost:10000''
   \<and> map_option clientApiBase
       (constructLlmApi \<lparr>provider = ''mistral'', apiBase = Some ''https://llm.example.org/v1''\<rparr>)
     = Some (Some ''https://llm.example.org/v1'')
   \<and> \<not> endsWithSlash ''https://llm.example.org/v1''
   \<and> map_option clientApiBase
       (constructLlmApi \<lparr>provider = ''anthropic'', apiBase = Some ''https://llm.example.org/v1''\<rparr>)
     = Some (Some ''https://llm.example.org/v1/'')"
  by (simp add: constructLlmApi_def openAICompatible_def endsWithSlash_def anthropicApiBase_def)

text \<open>
  C4. An OpenAI-compatible provider identifier resolves to the generic \<open>OpenAIApi\<close>
  client; its \<open>apiBase\<close> is the provider's default when \<open>config.apiBase\<close> is absent and
  \<open>config.apiBase\<close> when it is present, and the rest of the configuration is passed on
  unchanged.
\<close>

theorem openAICompatible_apiBase:
  assumes "(p, dflt) \<in> set openAICompatibleDefaults" and "provider cfg = p"
  shows "\<exists>cfg'. constructLlmApi cfg = Some (OpenAIApi cfg')
           \<and> apiBase cfg' = Some (case apiBase cfg of None \<Rightarrow> dflt | Some b \<Rightarrow> b)
           \<and> provider cfg' = provider cfg
           \<and> LLMConfig.more cfg' = LLMConfig.more cfg"
proof -
  have "(provider cfg, dflt) \<in> set openAICompatibleDefaults"
    using assms by simp
  from constructLlmApi_openAICompatible [OF this] show ?thesis
    by simp
qed

theorem openAICompatible_apiBase_witness:
  "(''groq'', ''https://api.groq.com/openai/v1/'') \<in> set openAICompatibleDefaults
   \<and> (\<exists>cfg'. constructLlmApi \<lparr>provider = ''groq'', apiBase = None\<rparr> = Some (OpenAIApi cfg')
          \<and> apiBase cfg' = Some ''https://api.groq.com/openai/v1/'')
   \<and> (\<exists>cfg'. constructLlmApi \<lparr>provider = ''groq'', apiBase = Some ''http://10.0.0.5:9000/v1/''\<rparr>
            = Some (OpenAIApi cfg')
          \<and> apiBase cfg' = Some ''http://10.0.0.5:9000/v1/'')"
proof -
  have mem: "(''groq'', ''https://api.groq.com/openai/v1/'') \<in> set openAICompatibleDefaults"
    by (simp add: openAICompatibleDefaults_def)
  have p1: "provider \<lparr>provider = ''groq'', apiBase = None\<rparr> = ''groq''" by simp
  have p2: "provider \<lparr>provider = ''groq'', apiBase = Some ''http://10.0.0.5:9000/v1/''\<rparr> = ''groq''"
    by simp
  show ?thesis
    using mem openAICompatible_apiBase [OF mem p1] openAICompatible_apiBase [OF mem p2]
    by (simp del: list.set, blast)
qed

section \<open>Properties of the Anthropic adapter\<close>

subsection \<open>Numbers\<close>

lemma excessBits_small: "n < 2 ^ 53 \<Longrightarrow> excessBits n = 0"
  by (subst excessBits.simps) simp

lemma roundToDouble_exact: "n < 2 ^ 53 \<Longrightarrow> roundToDouble n = Num n"
proof -
  assume small: "n < 2 ^ 53"
  have "(2::nat) ^ 53 < 2 ^ 1024" by simp
  with small have "n < 2 ^ 1024" by (rule less_trans)
  with small show ?thesis
    by (simp add: roundToDouble_def excessBits_small)
qed

lemma jsAdd_exact: "a + b < 2 ^ 53 \<Longrightarrow> jsAdd (Num a) (Num b) = Num (a + b)"
  by (simp add: roundToDouble_exact)

lemma jsAdd_commute: "jsAdd x y = jsAdd y x"
  by (cases x; cases y) (simp_all add: add.commute)

subsection \<open>The stream\<close>

lemma handleSseEvent_not_terminal:
  "handleSseEvent modelId st ev = Inr (st', out) \<Longrightarrow> \<forall>c \<in> set out. \<not> isTerminal c"
  by (cases "(modelId, st, ev)" rule: handleSseEvent.cases)
     (auto simp: isTerminal_def chatChunk_def chatChunkFromDelta_def
           split: if_splits option.splits)

lemma streamLoop_shape:
  "streamLoop modelId st evs sseError = (chunks, None) \<Longrightarrow>
   \<exists>body u. chunks = body @ [usageChatChunk modelId u]
            \<and> (\<forall>c \<in> set body. \<not> isTerminal c)
            \<and> total_tokens u = jsAdd (completion_tokens u) (prompt_tokens u)"
proof (induction evs arbitrary: st chunks)
  case Nil
  then obtain u where
    "chunks = [] @ [usageChatChunk modelId u]"
    "total_tokens u = jsAdd (completion_tokens u) (prompt_tokens u)"
    by (auto split: option.splits)
  then show ?case by fastforce
next
  case (Cons ev rest)
  from Cons.prems obtain st1 out tail where
    ev: "handleSseEvent modelId st ev = Inr (st1, out)" and
    tl: "streamLoop modelId st1 rest sseError = (tail, None)" and
    ch: "chunks = out @ tail"
    by (auto split: sum.splits prod.splits)
  from Cons.IH [OF tl] obtain body u where
    tail: "tail = body @ [usageChatChunk modelId u]" and
    body: "\<forall>c \<in> set body. \<not> isTerminal c" and
    total: "total_tokens u = jsAdd (completion_tokens u) (prompt_tokens u)"
    by blast
  from handleSseEvent_not_terminal [OF ev] body
  have "\<forall>c \<in> set (out @ body). \<not> isTerminal c" by auto
  moreover have "chunks = (out @ body) @ [usageChatChunk modelId u]"
    using ch tail by simp
  ultimately show ?case using total by blast
qed

text \<open>
  C5. When a stream is handled without error, the chunks yielded are not empty and
  hold exactly one terminal chunk, which is the last one; it carries a usage record and
  neither a text delta nor tool-call deltas.
\<close>

theorem handleStreamResponse_one_terminal_chunk:
  assumes "handleStreamResponse events sseError modelId = (chunks, None)"
  shows "chunks \<noteq> []
       \<and> length (filter isTerminal chunks) = 1
       \<and> isTerminal (last chunks)
       \<and> usage (last chunks) \<noteq> None
       \<and> textDelta (last chunks) = None
       \<and> toolCallDeltas (last chunks) = None"
proof -
  from assms have "streamLoop modelId initialStreamState events sseError = (chunks, None)"
    by (simp add: handleStreamResponse_def)
  from streamLoop_shape [OF this] obtain body u where
    ch: "chunks = body @ [usageChatChunk modelId u]" and
    body: "\<forall>c \<in> set body. \<not> isTerminal c"
    by blast
  have "filter isTerminal body = []"
    using body by (simp add: filter_empty_conv)
  then have "length (filter isTerminal chunks) = 1"
    using ch by (simp add: isTerminal_def usageChatChunk_def)
  moreover have "last chunks = usageChatChunk modelId u" using ch by simp
  moreover have "chunks \<noteq> []" using ch by simp
  ultimately show ?thesis
    by (simp add: isTerminal_def usageChatChunk_def)
qed

theorem handleStreamResponse_one_terminal_chunk_witness:
  "handleStreamResponse
     [MessageStart (Some [''input_tokens'' \<mapsto> Num 10]),
      ContentBlockStart \<lparr>blockType = ''text'', blockId = None, blockName = None\<rparr>,
      ContentBlockDelta (TextDelta ''Hi''), ContentBlockStop,
      ContentBlockStart
        \<lparr>blockType = ''tool_use'', blockId = Some ''toolu_1'', blockName = Some ''ls''\<rparr>,
      ContentBlockDelta (InputJsonDelta ''{}''), ContentBlockStop,
      MessageDelta (Some [''output_tokens'' \<mapsto> Num 3]), OtherEvent ''message_stop'']
     None ''claude''
   = ([\<lparr>chunkModel = ''claude'', textDelta = Some ''Hi'', toolCallDeltas = None, usage = None\<rparr>,
       \<lparr>chunkModel = ''claude'', textDelta = None,
        toolCallDeltas = Some [\<lparr>toolCallId = ''toolu_1'', toolCallType = ''function'',
                                toolCallIndex = 0, functionName = ''ls'',
                                functionArguments = ''{}''\<rparr>],
        usage = None\<rparr>,
       \<lparr>chunkModel = ''claude'', textDelta = None, toolCallDeltas = None,
        usage = Some \<lparr>completion_tokens = Num 3, prompt_tokens = Num 10,
                      total_tokens = Num 13, cached_tokens = Some (Num 0)\<rparr>\<rparr>], None)
   \<and> length (filter isTerminal
        (fst (handleStreamResponse
           [MessageStart (Some [''input_tokens'' \<mapsto> Num 10]),
            ContentBlockStart \<lparr>blockType = ''text'', blockId = None, blockName = None\<rparr>,
            ContentBlockDelta (TextDelta ''Hi''), ContentBlockStop,
            ContentBlockStart
              \<lparr>blockType = ''tool_use'', blockId = Some ''toolu_1'', blockName = Some ''ls''\<rparr>,
            ContentBlockDelta (InputJsonDelta ''{}''), ContentBlockStop,
            MessageDelta (Some [''output_tokens'' \<mapsto> Num 3]), OtherEvent ''message_stop'']
           None ''claude''))) = 1"
proof -
  have sum: "jsAdd (Num 3) (Num 10) = Num 13"
    by (simp add: roundToDouble_def excessBits.simps Let_def)
  have run: "handleStreamResponse
     [MessageStart (Some [''input_tokens'' \<mapsto> Num 10]),
      ContentBlockStart \<lparr>blockType = ''text'', blockId = None, blockName = None\<rparr>,
      ContentBlockDelta (TextDelta ''Hi''), ContentBlockStop,
      ContentBlockStart
        \<lparr>blockType = ''tool_use'', blockId = Some ''toolu_1'', blockName = Some ''ls''\<rparr>,
      ContentBlockDelta (InputJsonDelta ''{}''), ContentBlockStop,
      MessageDelta (Some [''output_tokens'' \<mapsto> Num 3]), OtherEvent ''message_stop'']
     None ''claude''
   = ([\<lparr>chunkModel = ''claude'', textDelta = Some ''Hi'', toolCallDeltas = None, usage = None\<rparr>,
       \<lparr>chunkModel = ''claude'', textDelta = None,
        toolCallDeltas = Some [\<lparr>toolCallId = ''toolu_1'', toolCallType = ''function'',
                                toolCallIndex = 0, functionName = ''ls'',
                                functionArguments = ''{}''\<rparr>],
        usage = None\<rparr>,
       \<lparr>chunkModel = ''claude'', textDelta = None, toolCallDeltas = None,
        usage = Some \<lparr>completion_tokens = Num 3, prompt_tokens = Num 10,
                      total_tokens = Num 13, cached_tokens = Some (Num 0)\<rparr>\<rparr>], None)"
    using sum
    by (simp add: handleStreamResponse_def initialStreamState_def chatChunk_def
          chatChunkFromDelta_def usageChatChunk_def orZero_def del: jsAdd.simps)
  show ?thesis
    using run handleStreamResponse_one_terminal_chunk [OF run] by simp
qed

subsection \<open>Usage\<close>

lemma orZero_other_entry:
  "k \<noteq> field \<Longrightarrow> orZero (Some (u(k \<mapsto> x))) field = orZero (Some u) field"
  by (simp add: orZero_def)

lemma handleSseEvent_withUsageEntry:
  "k \<notin> set [''input_tokens'', ''output_tokens'', ''cache_read_input_tokens''] \<Longrightarrow>
   handleSseEvent modelId st (withUsageEntry k x ev) = handleSseEvent modelId st ev"
  by (cases "(k, x, ev)" rule: withUsageEntry.cases) (simp_all add: orZero_other_entry)

lemma streamLoop_withUsageEntry:
  "k \<notin> set [''input_tokens'', ''output_tokens'', ''cache_read_input_tokens''] \<Longrightarrow>
   streamLoop modelId st (map (withUsageEntry k x) evs) sseError
     = streamLoop modelId st evs sseError"
  by (induction evs arbitrary: st)
     (simp_all add: handleSseEvent_withUsageEntry del: list.set split: sum.splits prod.splits)

text \<open>
  C6. In the usage record of a response and in the one of the terminal chunk of a
  stream, \<open>total_tokens\<close> is the sum of \<open>prompt_tokens\<close> and \<open>completion_tokens\<close> as
  JavaScript adds them, which is their exact sum below \<open>2 ^ 53\<close>; the two are the
  vendor's input and output counts, 0 when absent. No other entry of the vendor's usage
  object, a total of its own among them, changes the result.
\<close>

theorem usage_total_recomputed:
  "total_tokens (nonStreamUsage vendorUsage)
     = jsAdd (prompt_tokens (nonStreamUsage vendorUsage))
             (completion_tokens (nonStreamUsage vendorUsage))
   \<and> prompt_tokens (nonStreamUsage vendorUsage) = orZero vendorUsage ''input_tokens''
   \<and> completion_tokens (nonStreamUsage vendorUsage) = orZero vendorUsage ''output_tokens''
   \<and> (k \<notin> set [''input_tokens'', ''output_tokens'', ''cache_read_input_tokens''] \<longrightarrow>
        nonStreamUsage (Some (u(k \<mapsto> x))) = nonStreamUsage (Some u))
   \<and> (handleStreamResponse events sseError modelId = (chunks, None) \<longrightarrow>
        (\<exists>tu. usage (last chunks) = Some tu
              \<and> total_tokens tu = jsAdd (prompt_tokens tu) (completion_tokens tu)))
   \<and> (k \<notin> set [''input_tokens'', ''output_tokens'', ''cache_read_input_tokens''] \<longrightarrow>
        handleStreamResponse (map (withUsageEntry k x) events) sseError modelId
          = handleStreamResponse events sseError modelId)
   \<and> (a + b < 2 ^ 53 \<longrightarrow> jsAdd (Num a) (Num b) = Num (a + b))"
proof -
  have nonstream: "k \<notin> set [''input_tokens'', ''output_tokens'', ''cache_read_input_tokens''] \<longrightarrow>
        nonStreamUsage (Some (u(k \<mapsto> x))) = nonStreamUsage (Some u)"
    by (simp add: nonStreamUsage_def orZero_def)
  have stream: "handleStreamResponse events sseError modelId = (chunks, None) \<longrightarrow>
        (\<exists>tu. usage (last chunks) = Some tu
              \<and> total_tokens tu = jsAdd (prompt_tokens tu) (completion_tokens tu))"
  proof
    assume "handleStreamResponse events sseError modelId = (chunks, None)"
    then have "streamLoop modelId initialStreamState events sseError = (chunks, None)"
      by (simp add: handleStreamResponse_def)
    from streamLoop_shape [OF this] obtain body tu where
      "chunks = body @ [usageChatChunk modelId tu]"
      "total_tokens tu = jsAdd (completion_tokens tu) (prompt_tokens tu)"
      by blast
    then have "usage (last chunks) = Some tu
               \<and> total_tokens tu = jsAdd (prompt_tokens tu) (completion_tokens tu)"
      by (simp add: usageChatChunk_def jsAdd_commute)
    then show "\<exists>tu. usage (last chunks) = Some tu
              \<and> total_tokens tu = jsAdd (prompt_tokens tu) (completion_tokens tu)"
      by blast
  qed
  have stream_entry: "k \<notin> set [''input_tokens'', ''output_tokens'', ''cache_read_input_tokens''] \<longrightarrow>
        handleStreamResponse (map (withUsageEntry k x) events) sseError modelId
          = handleStreamResponse events sseError modelId"
    using streamLoop_withUsageEntry [of k modelId initialStreamState x events sseError]
    by (simp add: handleStreamResponse_def del: list.set)
  show ?thesis
    using nonstream stream stream_entry jsAdd_exact [of a b]
    by (simp add: nonStreamUsage_def del: list.set jsAdd.simps)
qed


theorem usage_total_recomputed_witness:
  "nonStreamUsage
     (Some [''input_tokens'' \<mapsto> Num 10, ''output_tokens'' \<mapsto> Num 3, ''total_tokens'' \<mapsto> Num 999])
   = \<lparr>completion_tokens = Num 3, prompt_tokens = Num 10, total_tokens = Num 13,
      cached_tokens = Some (Num 0)\<rparr>
   \<and> nonStreamUsage (Some [''input_tokens'' \<mapsto> Num 10, ''output_tokens'' \<mapsto> Num 3])
   = \<lparr>completion_tokens = Num 3, prompt_tokens = Num 10, total_tokens = Num 13,
      cached_tokens = Some (Num 0)\<rparr>
   \<and> handleStreamResponse
       (map (withUsageEntry ''total_tokens'' (Num 999))
          [MessageStart (Some [''input_tokens'' \<mapsto> Num 10]),
           MessageDelta (Some [''output_tokens'' \<mapsto> Num 3])])
       None ''claude''
     = ([\<lparr>chunkModel = ''claude'', textDelta = None, toolCallDeltas = None,
          usage = Some \<lparr>completion_tokens = Num 3, prompt_tokens = Num 10,
                        total_tokens = Num 13, cached_tokens = Some (Num 0)\<rparr>\<rparr>], None)
   \<and> jsAdd (Num 10) (Num 3) = Num 13"
proof -
  let ?events = "[MessageStart (Some [''input_tokens'' \<mapsto> Num 10]),
                  MessageDelta (Some [''output_tokens'' \<mapsto> Num 3])]"
  have key: "''total_tokens''
               \<notin> set [''input_tokens'', ''output_tokens'', ''cache_read_input_tokens'']"
    by simp
  have small: "(10::nat) + 3 < 2 ^ 53" by simp
  have sum: "jsAdd (Num 3) (Num 10) = Num 13" "jsAdd (Num 10) (Num 3) = Num 13"
    by (simp_all add: roundToDouble_def excessBits.simps Let_def)
  have plain: "nonStreamUsage (Some [''input_tokens'' \<mapsto> Num 10, ''output_tokens'' \<mapsto> Num 3])
   = \<lparr>completion_tokens = Num 3, prompt_tokens = Num 10, total_tokens = Num 13,
      cached_tokens = Some (Num 0)\<rparr>"
    using sum by (simp add: nonStreamUsage_def orZero_def del: jsAdd.simps)
  have run: "handleStreamResponse ?events None ''claude''
     = ([\<lparr>chunkModel = ''claude'', textDelta = None, toolCallDeltas = None,
          usage = Some \<lparr>completion_tokens = Num 3, prompt_tokens = Num 10,
                        total_tokens = Num 13, cached_tokens = Some (Num 0)\<rparr>\<rparr>], None)"
    using sum
    by (simp add: handleStreamResponse_def initialStreamState_def usageChatChunk_def
          orZero_def del: jsAdd.simps)
  from usage_total_recomputed
         [of "Some [''input_tokens'' \<mapsto> Num 10, ''output_tokens'' \<mapsto> Num 3]"
             "''total_tokens''" "[''input_tokens'' \<mapsto> Num 10, ''output_tokens'' \<mapsto> Num 3]"
             "Num 999" ?events None "''claude''" "[]" 10 3]
       key small
  have "nonStreamUsage
          (Some ([''input_tokens'' \<mapsto> Num 10, ''output_tokens'' \<mapsto> Num 3]
                   (''total_tokens'' \<mapsto> Num 999)))
          = nonStreamUsage (Some [''input_tokens'' \<mapsto> Num 10, ''output_tokens'' \<mapsto> Num 3])"
    and "handleStreamResponse (map (withUsageEntry ''total_tokens'' (Num 999)) ?events)
           None ''claude'' = handleStreamResponse ?events None ''claude''"
    and "jsAdd (Num 10) (Num 3) = Num (10 + 3)"
    by blast+
  then show ?thesis
    using plain run by simp
qed

subsection \<open>Stop sequences\<close>

lemma dropWhile_all: "(\<forall>y \<in> set (dropWhile P ys). P y) \<longleftrightarrow> (\<forall>y \<in> set ys. P y)"
  by (induction ys) auto

lemma trim_empty_iff: "trim s = [] \<longleftrightarrow> list_all isWhiteSpace s"
  by (simp add: trim_def list_all_iff dropWhile_all)

text \<open>
  C7, as stated, fails for a list: when every entry of the array is blank, the body
  carries the field \<open>stop_sequences\<close> with the empty array.
\<close>

theorem blank_stop_list_counterexample:
  "trim [] = [] \<and> trim [32, 9] = []
   \<and> stop_sequences
       (convertToCleanAnthropicBody
          \<lparr>requestModel = ''claude'', requestStop = Some (StopList [[], [32, 9]]),
           requestMaxTokens = None, requestStream = Some True\<rparr>) = Some []
   \<and> stop_sequences
       (convertToCleanAnthropicBody
          \<lparr>requestModel = ''claude'', requestStop = Some (StopList [[], [32, 9]]),
           requestMaxTokens = None, requestStream = Some True\<rparr>) \<noteq> None"
  by (simp add: convertToCleanAnthropicBody_def convertStop_def trim_def isWhiteSpace_def)

text \<open>
  C7, amended. A single stop string that is blank gives a body without the field
  \<open>stop_sequences\<close>, and so does an absent \<open>stop\<close>; a single string that is not blank is
  sent as it is. An array gives the field with its entries that are not blank, in their
  order, which is the empty array when all are blank. No blank entry is ever sent. An
  entry is blank when it is made of white space only.
\<close>

theorem convertStop_blank_entries:
  "(trim s = [] \<longrightarrow>
      stop_sequences (convertToCleanAnthropicBody (oaiBody\<lparr>requestStop := Some (StopString s)\<rparr>))
        = None)
   \<and> (trim s \<noteq> [] \<longrightarrow>
      stop_sequences (convertToCleanAnthropicBody (oaiBody\<lparr>requestStop := Some (StopString s)\<rparr>))
        = Some [s])
   \<and> stop_sequences (convertToCleanAnthropicBody (oaiBody\<lparr>requestStop := None\<rparr>)) = None
   \<and> stop_sequences (convertToCleanAnthropicBody (oaiBody\<lparr>requestStop := Some (StopList xs)\<rparr>))
        = Some (filter (\<lambda>entry. trim entry \<noteq> []) xs)
   \<and> (\<forall>sent. stop_sequences (convertToCleanAnthropicBody oaiBody) = Some sent \<longrightarrow>
         (\<forall>entry \<in> set sent. trim entry \<noteq> []))
   \<and> (trim s = [] \<longleftrightarrow> list_all isWhiteSpace s)"
  by (auto simp: convertToCleanAnthropicBody_def convertStop_def trim_empty_iff
           split: option.splits StopInput.splits if_splits)

theorem convertStop_blank_entries_witness:
  "trim [32, 160, 9] = []
   \<and> stop_sequences
       (convertToCleanAnthropicBody
          \<lparr>requestModel = ''claude'', requestStop = Some (StopString [32, 160, 9]),
           requestMaxTokens = None, requestStream = None\<rparr>) = None
   \<and> stop_sequences
       (convertToCleanAnthropicBody
          \<lparr>requestModel = ''claude'', requestStop = Some (StopList [[32], [69, 78, 68], []]),
           requestMaxTokens = None, requestStream = None\<rparr>) = Some [[69, 78, 68]]"
proof -
  let ?body = "\<lparr>requestModel = ''claude'', requestStop = None,
                requestMaxTokens = None, requestStream = None\<rparr>"
  have blank: "trim [32, 160, 9] = []"
    by (simp add: trim_def isWhiteSpace_def)
  have kept: "filter (\<lambda>entry. trim entry \<noteq> []) [[32], [69, 78, 68], []] = [[69, 78, 68]]"
    by (simp add: trim_def isWhiteSpace_def)
  show ?thesis
    using blank kept
      convertStop_blank_entries [of "[32, 160, 9]" ?body "[[32], [69, 78, 68], []]"]
    by simp
qed

section \<open>Properties of the configuration loader\<close>

lemma substituteEnv_agree:
  "\<forall>v \<in> set vars. e1 v = e2 v \<Longrightarrow>
   substituteEnv X e1 vars content = substituteEnv X e2 vars content"
  by (induction vars arbitrary: content) (auto split: option.splits)

text \<open>
  C3, as stated, fails for the loader: with the same file at the same path, two process
  environments that differ in \<open>TOKEN\<close> give two different configurations.
\<close>

theorem environment_read_counterexample:
  \<open>files (exampleAmbient [''TOKEN'' \<mapsto> ''abc'']) = files (exampleAmbient [''TOKEN'' \<mapsto> ''xyz''])
   \<and> resolveSerializedConfig exampleExternals (exampleAmbient [''TOKEN'' \<mapsto> ''abc''])
        ''/home/dev/.continue/config.json''
      = Inr \<lparr>env = Some [''abc''], allowAnonymousTelemetry = None, disableIndexing = None,
             userToken = Some ''abc''\<rparr>
   \<and> resolveSerializedConfig exampleExternals (exampleAmbient [''TOKEN'' \<mapsto> ''xyz''])
        ''/home/dev/.continue/config.json''
      = Inr \<lparr>env = Some [''xyz''], allowAnonymousTelemetry = None, disableIndexing = None,
             userToken = Some ''xyz''\<rparr>
   \<and> resolveSerializedConfig exampleExternals (exampleAmbient [''TOKEN'' \<mapsto> ''abc''])
        ''/home/dev/.continue/config.json''
      \<noteq> resolveSerializedConfig exampleExternals (exampleAmbient [''TOKEN'' \<mapsto> ''xyz''])
          ''/home/dev/.continue/config.json''\<close>
  by (simp add: resolveSerializedConfig_def exampleAmbient_def exampleExternals_def
        exampleParse_def mergedEnv_def)

text \<open>
  C3, amended. \<open>resolveSerializedConfig\<close> reads the file at the given path and the
  process environment merged with the \<open>.env\<close> entries; its result depends on that
  environment only through the names listed in the \<open>env\<close> array of the file: two runs
  on the same file whose environments agree on these names return the same result, in
  particular when the file has no \<open>env\<close> array.
\<close>

theorem resolveSerializedConfig_environment:
  assumes "files A1 filepath = files A2 filepath"
      and "\<forall>content cfg vars.
             files A1 filepath = Some content \<longrightarrow> JSONC_parse X content = Some cfg \<longrightarrow>
             env cfg = Some vars \<longrightarrow>
             (\<forall>v \<in> set vars. mergedEnv X A1 v = mergedEnv X A2 v)"
  shows "resolveSerializedConfig X A1 filepath = resolveSerializedConfig X A2 filepath"
proof (cases "files A1 filepath")
  case None
  then show ?thesis using assms(1) by (simp add: resolveSerializedConfig_def)
next
  case (Some content)
  show ?thesis
  proof (cases "JSONC_parse X content")
    case None
    then show ?thesis using Some assms(1) by (simp add: resolveSerializedConfig_def)
  next
    case parsed: (Some cfg)
    show ?thesis
    proof (cases "env cfg")
      case None
      then show ?thesis
        using Some parsed assms(1) by (simp add: resolveSerializedConfig_def)
    next
      case vars: (Some vars)
      from assms(2) Some parsed vars
      have "\<forall>v \<in> set vars. mergedEnv X A1 v = mergedEnv X A2 v" by blast
      from substituteEnv_agree [OF this]
      have "substituteEnv X (mergedEnv X A1) vars content
              = substituteEnv X (mergedEnv X A2) vars content" .
      then show ?thesis
        using Some parsed vars assms(1) by (simp add: resolveSerializedConfig_def)
    qed
  qed
qed

theorem resolveSerializedConfig_environment_witness:
  \<open>resolveSerializedConfig exampleExternals
      (exampleAmbient [''TOKEN'' \<mapsto> ''abc'', ''HOME'' \<mapsto> ''/home/dev''])
      ''/home/dev/.continue/config.json''
    = resolveSerializedConfig exampleExternals
      (exampleAmbient [''TOKEN'' \<mapsto> ''abc'', ''HOME'' \<mapsto> ''/root'', ''CI'' \<mapsto> ''1''])
      ''/home/dev/.continue/config.json''
   \<and> resolveSerializedConfig exampleExternals
      (exampleAmbient [''TOKEN'' \<mapsto> ''abc'', ''HOME'' \<mapsto> ''/root'', ''CI'' \<mapsto> ''1''])
      ''/home/dev/.continue/config.json''
    = Inr \<lparr>env = Some [''abc''], allowAnonymousTelemetry = None, disableIndexing = None,
           userToken = Some ''abc''\<rparr>\<close>
proof -
  let ?A1 = "exampleAmbient [''TOKEN'' \<mapsto> ''abc'', ''HOME'' \<mapsto> ''/home/dev'']"
  let ?A2 = "exampleAmbient [''TOKEN'' \<mapsto> ''abc'', ''HOME'' \<mapsto> ''/root'', ''CI'' \<mapsto> ''1'']"
  let ?path = "''/home/dev/.continue/config.json''"
  have same_files: "files ?A1 ?path = files ?A2 ?path"
    by (simp add: exampleAmbient_def)
  have same_vars: "\<forall>content cfg vars.
      files ?A1 ?path = Some content \<longrightarrow> JSONC_parse exampleExternals content = Some cfg \<longrightarrow>
      env cfg = Some vars \<longrightarrow>
      (\<forall>v \<in> set vars. mergedEnv exampleExternals ?A1 v = mergedEnv exampleExternals ?A2 v)"
    by (auto simp: exampleAmbient_def exampleExternals_def exampleParse_def mergedEnv_def)
  have run: \<open>resolveSerializedConfig exampleExternals ?A2 ?path
    = Inr \<lparr>env = Some [''abc''], allowAnonymousTelemetry = None, disableIndexing = None,
           userToken = Some ''abc''\<rparr>\<close>
    by (simp add: resolveSerializedConfig_def exampleAmbient_def exampleExternals_def
        exampleParse_def mergedEnv_def)
  show ?thesis
    using run resolveSerializedConfig_environment [OF same_files same_vars]
    by simp
qed

text \<open>
  C8. When \<open>validateConfig\<close> reports a fatal error, \<open>loadSerializedConfig\<close> returns the
  errors with \<open>config\<close> undefined and \<open>configLoadInterrupted\<close> true, whatever the workspace
  configurations and the IDE settings are: nothing of the later processing reaches the
  result.
\<close>

theorem loadSerializedConfig_fatal_interrupts:
  assumes "initialConfig X A overrideConfigJson = Inr c"
      and "validateConfig X c = Some errs"
      and "\<exists>e \<in> set errs. fatal e"
  shows "loadSerializedConfig X A workspaceConfigs ideSettings overrideConfigJson
           = Inr \<lparr>errors = Some errs, config = None, configLoadInterrupted = True\<rparr>"
  using assms
  by (simp add: loadSerializedConfig_def someFatal_def list_ex_iff)

theorem loadSerializedConfig_fatal_interrupts_witness:
  "initialConfig
      (exampleExternals\<lparr>validateConfig :=
         (\<lambda>c. Some [\<lparr>fatal = False, message = ''unknown key''\<rparr>,
                     \<lparr>fatal = True, message = ''models must be an array''\<rparr>])\<rparr>)
      (exampleAmbient Map.empty) (Some emptyConfig) = Inr emptyConfig
   \<and> (\<exists>e \<in> set [\<lparr>fatal = False, message = ''unknown key''\<rparr>,
                   \<lparr>fatal = True, message = ''models must be an array''\<rparr>]. fatal e)
   \<and> loadSerializedConfig
        (exampleExternals\<lparr>validateConfig :=
           (\<lambda>c. Some [\<lparr>fatal = False, message = ''unknown key''\<rparr>,
                       \<lparr>fatal = True, message = ''models must be an array''\<rparr>])\<rparr>)
        (exampleAmbient Map.empty)
        [\<lparr>env = None, allowAnonymousTelemetry = Some False, disableIndexing = None,
          userToken = None, mergeBehavior = Merge\<rparr>]
        \<lparr>remoteConfigServerUrl = Some ''https://config.example.org''\<rparr>
        (Some emptyConfig)
      = Inr \<lparr>errors = Some [\<lparr>fatal = False, message = ''unknown key''\<rparr>,
                             \<lparr>fatal = True, message = ''models must be an array''\<rparr>],
             config = None, configLoadInterrupted = True\<rparr>"
proof -
  let ?X = "exampleExternals\<lparr>validateConfig :=
         (\<lambda>c. Some [\<lparr>fatal = False, message = ''unknown key''\<rparr>,
                     \<lparr>fatal = True, message = ''models must be an array''\<rparr>])\<rparr>"
  have init: "initialConfig ?X (exampleAmbient Map.empty) (Some emptyConfig) = Inr emptyConfig"
    by (simp add: initialConfig_def)
  have val: "validateConfig ?X emptyConfig
               = Some [\<lparr>fatal = False, message = ''unknown key''\<rparr>,
                       \<lparr>fatal = True, message = ''models must be an array''\<rparr>]"
    by simp
  have fat: "\<exists>e \<in> set [\<lparr>fatal = False, message = ''unknown key''\<rparr>,
                        \<lparr>fatal = True, message = ''models must be an array''\<rparr>]. fatal e"
    by simp
  show ?thesis
    using init fat loadSerializedConfig_fatal_interrupts [OF init val fat]
    by simp
qed







section \<open>Properties of the final configuration\<close>

lemma ignoreFreeTrial_warn: "snd (ignoreFreeTrial ms) = False"
  by (simp add: ignoreFreeTrial_def Let_def)

lemma ignoreFreeTrial_models:
  "fst (ignoreFreeTrial ms) = filter (\<lambda>m. providerName m \<noteq> ''free-trial'') ms"
  by (simp add: ignoreFreeTrial_def Let_def)

lemma selectInlineEdit_chat:
  "chat (modelsByRole (fst (selectInlineEdit F cc))) = chat (modelsByRole cc)"
  by (simp add: selectInlineEdit_def Let_def split: option.splits)

lemma selectApplyCodeBlock_chat:
  "chat (modelsByRole (fst (selectApplyCodeBlock F t cc))) = chat (modelsByRole cc)"
  by (simp add: selectApplyCodeBlock_def Let_def split: option.splits)

lemma addTransformersJs_chat:
  "chat (modelsByRole (addTransformersJs F ideType cc)) = chat (modelsByRole cc)"
  by (simp add: addTransformersJs_def)

lemma intermediateToFinalConfig_chat:
  "chat (modelsByRole (fst (intermediateToFinalConfig F ideType cfg))) = fst (chatModels F cfg)"
  by (simp add: intermediateToFinalConfig_def Let_def case_prod_beta addTransformersJs_chat
        selectApplyCodeBlock_chat selectInlineEdit_chat)

lemma embeddings_errors_not_warning:
  "freeTrialWarning \<notin> set (snd (snd (getEmbeddingsILLM F ideType e)))"
  by (auto simp: getEmbeddingsILLM_def Let_def freeTrialWarning_def
           split: option.splits EmbeddingsConfig.splits)

lemma reranking_errors_not_warning:
  "freeTrialWarning \<notin> set (snd (snd (getRerankingILLM F ms r)))"
  by (auto simp: getRerankingILLM_def Let_def freeTrialWarning_def
           split: option.splits RerankerConfig.splits)

lemma selectInlineEdit_errors_not_warning:
  "freeTrialWarning \<notin> set (snd (selectInlineEdit F cc))"
  by (auto simp: selectInlineEdit_def Let_def freeTrialWarning_def split: option.splits)

lemma selectApplyCodeBlock_errors_not_warning:
  "freeTrialWarning \<notin> set (snd (selectApplyCodeBlock F t cc))"
  by (auto simp: selectApplyCodeBlock_def Let_def freeTrialWarning_def split: option.splits)

lemma intermediateToFinalConfig_warning:
  "freeTrialWarning \<in> set (snd (intermediateToFinalConfig F ideType cfg)) \<longleftrightarrow>
     snd (chatModels F cfg)
     \<or> snd (tabAutocompleteModels F cfg)
     \<or> fst (snd (getEmbeddingsILLM F ideType (embeddingsProvider cfg)))
     \<or> fst (snd (getRerankingILLM F (fst (chatModels F cfg)) (reranker cfg)))"
  by (simp add: intermediateToFinalConfig_def Let_def case_prod_beta
        embeddings_errors_not_warning reranking_errors_not_warning
        selectInlineEdit_errors_not_warning selectApplyCodeBlock_errors_not_warning)

text \<open>
  C10. The chat models of the final configuration hold no model whose \<open>providerName\<close> is
  \<open>free-trial\<close>. The test that follows the filter never sets the flag, for any array of
  models, so the chat models never raise the free-trial warning: the warning is among
  the errors exactly when the tab-autocomplete models, the embeddings provider or the
  reranker raise it.
\<close>

theorem intermediateToFinalConfig_free_trial:
  "(\<forall>m \<in> set (chat (modelsByRole (fst (intermediateToFinalConfig F ideType cfg)))).
      providerName m \<noteq> ''free-trial'')
   \<and> snd (ignoreFreeTrial ms) = False
   \<and> snd (chatModels F cfg) = False
   \<and> (freeTrialWarning \<in> set (snd (intermediateToFinalConfig F ideType cfg)) \<longleftrightarrow>
        snd (tabAutocompleteModels F cfg)
        \<or> fst (snd (getEmbeddingsILLM F ideType (embeddingsProvider cfg)))
        \<or> fst (snd (getRerankingILLM F (fst (chatModels F cfg)) (reranker cfg))))"
  by (simp add: intermediateToFinalConfig_chat intermediateToFinalConfig_warning
        chatModels_def ignoreFreeTrial_warn ignoreFreeTrial_models)

theorem intermediateToFinalConfig_free_trial_witness:
  "map providerName
     (chat (modelsByRole (fst (intermediateToFinalConfig exampleFinalExternals ''jetbrains''
                                 exampleConfig)))) = [''ollama'']
   \<and> ''free-trial''
        \<notin> set (map providerName
                   (chat (modelsByRole (fst (intermediateToFinalConfig exampleFinalExternals
                                               ''jetbrains'' exampleConfig)))))
   \<and> snd (intermediateToFinalConfig exampleFinalExternals ''jetbrains'' exampleConfig) = []
   \<and> freeTrialWarning
        \<notin> set (snd (intermediateToFinalConfig exampleFinalExternals ''jetbrains'' exampleConfig))"
proof -
  have chat: "map providerName
     (chat (modelsByRole (fst (intermediateToFinalConfig exampleFinalExternals ''jetbrains''
                                 exampleConfig)))) = [''ollama'']"
    by (simp add: intermediateToFinalConfig_def chatModels_def ignoreFreeTrial_def
          applyRequestOptionsToModels_def modelsFromEntry_def tabAutocompleteModels_def
          getEmbeddingsILLM_def getRerankingILLM_def selectInlineEdit_def
          selectApplyCodeBlock_def roleTitle_def addTransformersJs_def
          exampleFinalExternals_def exampleConfig_def exampleLlm_def Let_def)
  have errs: "snd (intermediateToFinalConfig exampleFinalExternals ''jetbrains'' exampleConfig) = []"
    by (simp add: intermediateToFinalConfig_def chatModels_def ignoreFreeTrial_def
          applyRequestOptionsToModels_def modelsFromEntry_def tabAutocompleteModels_def
          getEmbeddingsILLM_def getRerankingILLM_def selectInlineEdit_def
          selectApplyCodeBlock_def roleTitle_def addTransformersJs_def
          exampleFinalExternals_def exampleConfig_def exampleLlm_def Let_def)
  show ?thesis
    using chat errs
      intermediateToFinalConfig_free_trial [of exampleFinalExternals "''jetbrains''" exampleConfig "[]"]
    by simp
qed

end
